theory Spec2Isabelle
  imports Main
begin

section \<open>Python values used by the menus\<close>

text \<open>
  The exceptions that can travel through the menu code.  \<open>IndexError\<close> and
  \<open>NoSchedule\<close> are the two the menus catch; the others are what Python raises
  for \<open>list.index\<close> on a missing element, for an attribute read on a missing
  attribute or on \<open>None\<close>, and for \<open>**None\<close>.
\<close>

datatype error = IndexError | ValueError | AttributeError | TypeError | NoSchedule

text \<open>
  A Python slice \<open>xs[lo:hi]\<close> with step 1.  A bound that is \<open>None\<close> is the
  end of the list on its side; a negative bound counts from the end; every
  bound is clamped to the list.
\<close>

definition slice_bound :: "nat \<Rightarrow> int \<Rightarrow> nat" where
  "slice_bound n i = (if i < 0 then nat (int n + i) else min n (nat i))"

definition py_slice :: "'a list \<Rightarrow> int option \<Rightarrow> int option \<Rightarrow> 'a list" where
  "py_slice xs lo hi =
     (let n = length xs;
          l = (case lo of None \<Rightarrow> 0 | Some i \<Rightarrow> slice_bound n i);
          h = (case hi of None \<Rightarrow> n | Some i \<Rightarrow> slice_bound n i)
      in take (h - l) (drop l xs))"

text \<open>\<open>xs.index(x)\<close>: the position of the first element equal to \<open>x\<close>, or ValueError.\<close>

fun list_index :: "'a list \<Rightarrow> 'a \<Rightarrow> error + int" where
  "list_index [] x = Inl ValueError"
| "list_index (y # ys) x =
     (if y = x then Inr 0
      else (case list_index ys x of Inl e \<Rightarrow> Inl e | Inr k \<Rightarrow> Inr (k + 1)))"

section \<open>The sink, the controls and the session\<close>

text \<open>
  What \<open>format_page\<close> returns: a dict of keyword arguments, a string, an embed, or
  anything else.  \<open>_get_kwargs_from_page\<close> turns the first three into the keyword
  arguments of the edit and falls through (returning \<open>None\<close>) on the rest.
\<close>

datatype ('d, 'e) page_value = Dict 'd | Str string | Embed 'e | Other

datatype ('d, 'e) kwargs =
    Kwargs_dict 'd
  | Kwargs (content: "string option") (embed: "'e option")

text \<open>
  The items a view can hold (its \<open>children\<close>), by the attribute that names them.
  A select holds its options and, like every button, a \<open>disabled\<close> flag, which is
  \<open>False\<close> on a freshly built item.
\<close>

datatype item =
    Stop_button | First_item | Back_button | Forward_button | Last_item | Select_item
  | Pick_team_button | Change_date_button | Heatmap_button | Gameflow_button

record 'o select =
  options :: "'o list"
  select_disabled :: bool

record 'o view =
  children :: "item list"
  first_item_disabled :: bool
  last_item_disabled :: bool
  back_button_disabled :: bool
  forward_button_disabled :: bool
  select_view :: "'o select option"

text \<open>
  \<open>View.add_item\<close> appends to the children, \<open>View.remove_item\<close> removes the item
  when it is there and does nothing otherwise.
\<close>

definition add_item :: "item \<Rightarrow> 'o view \<Rightarrow> 'o view" where
  "add_item it v = v\<lparr>children := children v @ [it]\<rparr>"

definition remove_item :: "item \<Rightarrow> 'o view \<Rightarrow> 'o view" where
  "remove_item it v = v\<lparr>children := remove1 it (children v)\<rparr>"

text \<open>
  The calls a session makes on the message sink, in the order it makes them.  An edit
  that passes \<open>view=self\<close> carries the controls as they are at the call.
\<close>

datatype ('d, 'e, 'o) effect =
    Response_edit_message "('d, 'e) kwargs" "'o view"
  | Response_edit_message_view_None
  | Response_send_message string bool
  | Message_delete

text \<open>
  The session: the fields of the view object the menus read and write.  \<open>author\<close> is
  the id of the captured user, \<open>None\<close> before the initial message is sent;
  \<open>stopped\<close> is set by \<open>View.stop()\<close>; \<open>sink\<close> is the log of sink calls.
\<close>

record ('d, 'e, 'o) menu =
  view :: "'o view"
  current_page :: int
  author :: "int option"
  stopped :: bool
  sink :: "('d, 'e, 'o) effect list"

record interaction =
  user_id :: int
  response_is_done :: bool
  message_ephemeral :: bool

definition not_authorized :: string where
  "not_authorized = ''You are not authorized to interact with this.''"

section \<open>Page sources\<close>

text \<open>
  A page source as the two \<open>BaseMenu\<close> classes use it: \<open>entries\<close> is its list
  of entries, \<open>get_page\<close> and \<open>get_max_pages\<close> are its methods (\<open>None\<close> is an
  unknown maximum), \<open>format_page\<close> renders a page for the session it is given, and
  \<open>pages\<close> and \<open>select_options\<close> are \<open>None\<close> when the source has no attribute of that
  name.
\<close>

record ('p, 'd, 'e, 'o) page_source =
  entries :: "'p list"
  pages :: "'p list option"
  get_page :: "int \<Rightarrow> error + 'p"
  get_max_pages :: "int option"
  format_page :: "('d, 'e, 'o) menu \<Rightarrow> 'p \<Rightarrow> ('d, 'e) page_value"
  select_options :: "'o list option"

text \<open>
  Modelled from the spec: \<open>get_page\<close> and \<open>get_max_pages\<close> of the list source
  (\<open>menus.ListPageSource\<close> of the vendored menus library, which every source class of
  \<open>destiny/menus.py\<close> and of \<open>hockey/menu.py\<close> extends with \<open>per_page=1\<close>; the
  library is not part of the repository).  One entry is one page; \<open>get_page(index)\<close>
  fails with IndexError if the index is outside \<open>[0, max_pages())\<close>; the maximum is
  the number of entries.
\<close>

definition ListPageSource_get_page :: "'p list \<Rightarrow> int \<Rightarrow> error + 'p" where
  "ListPageSource_get_page es n =
     (if 0 \<le> n \<and> n < int (length es) then Inr (es ! nat n) else Inl IndexError)"

definition ListPageSource_get_max_pages :: "'p list \<Rightarrow> int option" where
  "ListPageSource_get_max_pages es = Some (int (length es))"

text \<open>
  \<open>VaultPages\<close> of \<open>destiny/menus.py\<close>: the entries are also kept as \<open>pages\<close>, and
  there is one select option per page, numbered from 1, whose value is the page's
  index.  Its \<open>format_page\<close> asks the cog for item definitions; it is the parameter
  \<open>fmt\<close>.
\<close>

record select_option =
  label_number :: int
  option_value :: int
  description :: string

fun vault_select_options :: "int \<Rightarrow> 'p list \<Rightarrow> select_option list" where
  "vault_select_options count [] = []"
| "vault_select_options count (page # rest) =
     \<lparr>label_number = count + 1, option_value = count,
      description = ''figure out how to get the gun name here''\<rparr>
       # vault_select_options (count + 1) rest"

definition VaultPages ::
  "((('d, 'e, select_option) menu) \<Rightarrow> 'p \<Rightarrow> ('d, 'e) page_value) \<Rightarrow> 'p list
     \<Rightarrow> ('p, 'd, 'e, select_option) page_source" where
  "VaultPages fmt ps =
     \<lparr>entries = ps, pages = Some ps,
      get_page = ListPageSource_get_page ps,
      get_max_pages = ListPageSource_get_max_pages ps,
      format_page = fmt,
      select_options = Some (vault_select_options 0 ps)\<rparr>"

text \<open>
  \<open>SimplePages\<close> of \<open>hockey/menu.py\<close>: a page is a string or an embed, and an embed
  gets the footer "Page current_page + 1 / maximum" (\<open>set_footer\<close>, a parameter).  The
  class sets neither \<open>pages\<close> nor \<open>select_options\<close>.
\<close>

definition SimplePages ::
  "('e \<Rightarrow> int \<Rightarrow> int \<Rightarrow> 'e) \<Rightarrow> (string + 'e) list \<Rightarrow> (string + 'e, 'd, 'e, 'o) page_source" where
  "SimplePages set_footer ps =
     \<lparr>entries = ps, pages = None,
      get_page = ListPageSource_get_page ps,
      get_max_pages = ListPageSource_get_max_pages ps,
      format_page = (\<lambda>view page. case page of
                       Inl s \<Rightarrow> Str s
                     | Inr e \<Rightarrow> Embed (set_footer e (current_page view + 1) (int (length ps)))),
      select_options = None\<rparr>"

text \<open>
  \<open>PlayerPages\<close> of \<open>hockey/menu.py\<close>: the pages are player ids, with one select
  option per page, numbered from 1, whose value is the player's id and whose
  description is the first 50 characters of the player's name.  \<open>full_name\<close> is the
  lookup \<open>players[player_id]["fullName"]\<close>; \<open>format_page\<close> fetches the player's
  statistics and is the parameter \<open>fmt\<close>.
\<close>

fun player_select_options :: "(int \<Rightarrow> string) \<Rightarrow> int \<Rightarrow> int list \<Rightarrow> select_option list" where
  "player_select_options full_name count [] = []"
| "player_select_options full_name count (player_id # rest) =
     \<lparr>label_number = count + 1, option_value = player_id,
      description = take 50 (full_name player_id)\<rparr>
       # player_select_options full_name (count + 1) rest"

definition PlayerPages ::
  "((('d, 'e, select_option) menu) \<Rightarrow> int \<Rightarrow> ('d, 'e) page_value) \<Rightarrow> (int \<Rightarrow> string)
     \<Rightarrow> int list \<Rightarrow> (int, 'd, 'e, select_option) page_source" where
  "PlayerPages fmt full_name ps =
     \<lparr>entries = ps, pages = Some ps,
      get_page = ListPageSource_get_page ps,
      get_max_pages = ListPageSource_get_max_pages ps,
      format_page = fmt,
      select_options = Some (player_select_options full_name 0 ps)\<rparr>"

section \<open>destiny/menus.py: BaseMenu\<close>

definition DestinySelect :: "'o list \<Rightarrow> 'o select" where
  "DestinySelect opts = \<lparr>options = opts, select_disabled = False\<rparr>"

text \<open>
  \<open>_get_select_menu\<close>: the select built from the source's options and the session's
  \<open>current_page\<close> at the call.
\<close>

definition get_select_menu :: "('p, 'd, 'e, 'o) page_source \<Rightarrow> int \<Rightarrow> 'o select option" where
  "get_select_menu src cp =
     (case select_options src of
        None \<Rightarrow> None
      | Some opts \<Rightarrow>
          if length opts > 25 then
            (let (minus_diff, plus_diff) =
               (if 12 < cp \<and> cp < int (length opts) - 25
                then (Some (cp - 12), Some (cp + 13))
                else if cp \<ge> int (length opts) - 25
                then (Some (int (length opts) - 25), None)
                else (None, Some 25))
             in Some (DestinySelect (py_slice opts minus_diff plus_diff)))
          else Some (DestinySelect (py_slice opts None (Some 25))))"

text \<open>
  \<open>check_disabled_buttons\<close>.  The select's flag is written through
  \<open>self.select_view\<close>, an attribute the constructor sets only for a source with
  select options: without it the write raises AttributeError.
\<close>

definition check_disabled_buttons ::
  "('p, 'd, 'e, 'o) page_source \<Rightarrow> 'o view \<Rightarrow> error option \<times> 'o view" where
  "check_disabled_buttons src v =
     (if length (entries src) = 1 then
        (let v1 = v\<lparr>first_item_disabled := True, last_item_disabled := True,
                     back_button_disabled := True, forward_button_disabled := True\<rparr>
         in if select_options src \<noteq> None then
              (case select_view v1 of
                 None \<Rightarrow> (Some AttributeError, v1)
               | Some sel \<Rightarrow> (None, v1\<lparr>select_view := Some (sel\<lparr>select_disabled := True\<rparr>)\<rparr>))
            else (None, v1))
      else
        (let v1 = v\<lparr>first_item_disabled := False, last_item_disabled := False,
                     back_button_disabled := False, forward_button_disabled := False\<rparr>
         in if select_options src \<noteq> None then
              (case select_view v1 of
                 None \<Rightarrow> (Some AttributeError, v1)
               | Some sel \<Rightarrow> (None, v1\<lparr>select_view := Some (sel\<lparr>select_disabled := False\<rparr>)\<rparr>))
            else (None, v1)))"

definition kwargs_of_value :: "('d, 'e) page_value \<Rightarrow> ('d, 'e) kwargs option" where
  "kwargs_of_value val =
     (case val of
        Dict d \<Rightarrow> Some (Kwargs_dict d)
      | Str s \<Rightarrow> Some (Kwargs (Some s) None)
      | Embed e \<Rightarrow> Some (Kwargs None (Some e))
      | Other \<Rightarrow> None)"

definition destiny_get_kwargs_from_page ::
  "('p, 'd, 'e, 'o) page_source \<Rightarrow> ('d, 'e, 'o) menu \<Rightarrow> 'p
     \<Rightarrow> (error + ('d, 'e) kwargs option) \<times> ('d, 'e, 'o) menu" where
  "destiny_get_kwargs_from_page src m page =
     (let val = format_page src m page in
      case check_disabled_buttons src (view m) of
        (Some e, v) \<Rightarrow> (Inl e, m\<lparr>view := v\<rparr>)
      | (None, v) \<Rightarrow> (Inr (kwargs_of_value val), m\<lparr>view := v\<rparr>))"

text \<open>
  \<open>show_page\<close>.  The result is the exception that leaves the method, if any, and
  the session as the method leaves it.
\<close>

definition destiny_show_page ::
  "('p, 'd, 'e, 'o) page_source \<Rightarrow> ('d, 'e, 'o) menu \<Rightarrow> int \<Rightarrow> interaction
     \<Rightarrow> error option \<times> ('d, 'e, 'o) menu" where
  "destiny_show_page src m page_number i =
     (case get_page src page_number of
        Inl e \<Rightarrow> (Some e, m)
      | Inr page \<Rightarrow>
          (case (if select_options src \<noteq> None \<and> page_number \<ge> 12 then
                   (case select_view (view m) of
                      None \<Rightarrow> Inl AttributeError
                    | Some old \<Rightarrow>
                        Inr (m\<lparr>view :=
                               add_item Select_item
                                 ((remove_item Select_item (view m))
                                    \<lparr>select_view := get_select_menu src (current_page m)\<rparr>)\<rparr>))
                 else Inr m) of
             Inl e \<Rightarrow> (Some e, m)
           | Inr m1 \<Rightarrow>
               (case (case pages src of
                        None \<Rightarrow> Inl AttributeError
                      | Some ps \<Rightarrow> list_index ps page) of
                  Inl e \<Rightarrow> (Some e, m1)
                | Inr k \<Rightarrow>
                    (case destiny_get_kwargs_from_page src (m1\<lparr>current_page := k\<rparr>) page of
                       (Inl e, m3) \<Rightarrow> (Some e, m3)
                     | (Inr None, m3) \<Rightarrow> (Some TypeError, m3)
                     | (Inr (Some kw), m3) \<Rightarrow>
                         (None, m3\<lparr>sink := sink m3 @ [Response_edit_message kw (view m3)]\<rparr>)))))"

text \<open>\<open>show_checked_page\<close>: the four-way test on the maximum, inside \<open>try ... except IndexError: pass\<close>.\<close>

definition destiny_show_checked_page ::
  "('p, 'd, 'e, 'o) page_source \<Rightarrow> ('d, 'e, 'o) menu \<Rightarrow> int \<Rightarrow> interaction
     \<Rightarrow> error option \<times> ('d, 'e, 'o) menu" where
  "destiny_show_checked_page src m page_number i =
     (let r = (case get_max_pages src of
                 None \<Rightarrow> destiny_show_page src m page_number i
               | Some max_pages \<Rightarrow>
                   if page_number \<ge> max_pages then destiny_show_page src m 0 i
                   else if page_number < 0 then destiny_show_page src m (max_pages - 1) i
                   else if max_pages > page_number \<and> page_number \<ge> 0
                   then destiny_show_page src m page_number i
                   else (None, m))
      in case r of (Some IndexError, m') \<Rightarrow> (None, m') | _ \<Rightarrow> r)"

text \<open>
  \<open>interaction_check\<close>: reads \<open>self.author.id\<close>, which raises AttributeError while
  the author is still \<open>None\<close>.
\<close>

definition destiny_interaction_check ::
  "('d, 'e, 'o) menu \<Rightarrow> interaction \<Rightarrow> (error + bool) \<times> ('d, 'e, 'o) menu" where
  "destiny_interaction_check m i =
     (case author m of
        None \<Rightarrow> (Inl AttributeError, m)
      | Some author_id \<Rightarrow>
          if user_id i \<noteq> author_id
          then (Inr False, m\<lparr>sink := sink m @ [Response_send_message not_authorized True]\<rparr>)
          else (Inr True, m))"

definition destiny_StopButton_callback ::
  "('d, 'e, 'o) menu \<Rightarrow> interaction \<Rightarrow> ('d, 'e, 'o) menu" where
  "destiny_StopButton_callback m i =
     (let m1 = m\<lparr>stopped := True\<rparr> in
      if message_ephemeral i
      then m1\<lparr>sink := sink m1 @ [Response_edit_message_view_None]\<rparr>
      else m1\<lparr>sink := sink m1 @ [Message_delete]\<rparr>)"

text \<open>The constructor, with \<open>page_start\<close> the keyword argument of that name (0 when absent).\<close>

definition destiny_BaseMenu ::
  "('p, 'd, 'e, 'o) page_source \<Rightarrow> int \<Rightarrow> ('d, 'e, 'o) menu" where
  "destiny_BaseMenu src page_start =
     (let v = \<lparr>children = [Stop_button, First_item, Back_button, Forward_button, Last_item],
               first_item_disabled = False, last_item_disabled = False,
               back_button_disabled = False, forward_button_disabled = False,
               select_view = None\<rparr>;
          v1 = (if select_options src \<noteq> None
                then add_item Select_item (v\<lparr>select_view := get_select_menu src page_start\<rparr>)
                else v)
      in \<lparr>view = v1, current_page = page_start, author = None, stopped = False, sink = []\<rparr>)"

section \<open>hockey/menu.py: BaseMenu\<close>

definition HockeySelectPlayer :: "'o list \<Rightarrow> 'o select" where
  "HockeySelectPlayer opts = \<lparr>options = opts, select_disabled = False\<rparr>"

definition hockey_get_kwargs_from_page ::
  "('p, 'd, 'e, 'o) page_source \<Rightarrow> ('d, 'e, 'o) menu \<Rightarrow> 'p \<Rightarrow> ('d, 'e) kwargs option" where
  "hockey_get_kwargs_from_page src m page =
     kwargs_of_value (format_page src m page)"

text \<open>
  \<open>update_select_view\<close>: the old select leaves the children, and a source with
  select options gets a new one, built from the page number.
\<close>

definition update_select_view ::
  "('p, 'd, 'e, 'o) page_source \<Rightarrow> 'o view \<Rightarrow> int \<Rightarrow> 'o view" where
  "update_select_view src v page_number =
     (let v1 = (if select_view v \<noteq> None then remove_item Select_item v else v) in
      case select_options src of
        None \<Rightarrow> v1
      | Some opts \<Rightarrow>
          (let options0 = py_slice opts None (Some 25);
               options1 = (if page_number \<ge> 12
                           then py_slice opts (Some (page_number - 12)) (Some (page_number + 13))
                           else options0)
           in add_item Select_item (v1\<lparr>select_view := Some (HockeySelectPlayer options1)\<rparr>)))"

text \<open>
  \<open>show_page\<close>.  When \<open>interaction.response.is_done()\<close> holds, the method calls
  \<open>interaction.followup.edit(**kwargs, view=self)\<close>.  \<open>interaction.followup\<close> is the
  library's webhook, whose \<open>edit\<close> takes none of the keywords \<open>content\<close>, \<open>embed\<close> and
  \<open>view\<close>: the call raises TypeError and nothing reaches the sink.
\<close>

definition hockey_show_page ::
  "('p, 'd, 'e, 'o) page_source \<Rightarrow> ('d, 'e, 'o) menu \<Rightarrow> int \<Rightarrow> interaction
     \<Rightarrow> error option \<times> ('d, 'e, 'o) menu" where
  "hockey_show_page src m page_number i =
     (case get_page src page_number of
        Inl e \<Rightarrow> (Some e, m)
      | Inr page \<Rightarrow>
          (let m1 = m\<lparr>current_page := page_number\<rparr>;
               kwargs = hockey_get_kwargs_from_page src m1 page;
               m2 = m1\<lparr>view := update_select_view src (view m1) page_number\<rparr>
           in if response_is_done i then (Some TypeError, m2)
              else
                (case kwargs of
                   None \<Rightarrow> (Some TypeError, m2)
                 | Some kw \<Rightarrow>
                     (None, m2\<lparr>sink := sink m2 @ [Response_edit_message kw (view m2)]\<rparr>))))"

definition hockey_show_checked_page ::
  "('p, 'd, 'e, 'o) page_source \<Rightarrow> ('d, 'e, 'o) menu \<Rightarrow> int \<Rightarrow> interaction
     \<Rightarrow> error option \<times> ('d, 'e, 'o) menu" where
  "hockey_show_checked_page src m page_number i =
     (let r = (case get_max_pages src of
                 None \<Rightarrow> hockey_show_page src m page_number i
               | Some max_pages \<Rightarrow>
                   if page_number \<ge> max_pages then hockey_show_page src m 0 i
                   else if page_number < 0 then hockey_show_page src m (max_pages - 1) i
                   else if max_pages > page_number \<and> page_number \<ge> 0
                   then hockey_show_page src m page_number i
                   else (None, m))
      in case r of (Some IndexError, m') \<Rightarrow> (None, m') | _ \<Rightarrow> r)"

text \<open>
  \<open>interaction_check\<close>: the test is \<open>self.author and ... != self.author.id\<close>, and an
  author that is \<open>None\<close> is falsy.
\<close>

definition hockey_interaction_check ::
  "('d, 'e, 'o) menu \<Rightarrow> interaction \<Rightarrow> bool \<times> ('d, 'e, 'o) menu" where
  "hockey_interaction_check m i =
     (if (case author m of None \<Rightarrow> False | Some author_id \<Rightarrow> user_id i \<noteq> author_id)
      then (False, m\<lparr>sink := sink m @ [Response_send_message not_authorized True]\<rparr>)
      else (True, m))"

text \<open>\<open>StopButton.callback\<close>, the one class both hockey menus attach.\<close>

definition hockey_StopButton_callback ::
  "('d, 'e, 'o, 'z) menu_scheme \<Rightarrow> interaction \<Rightarrow> ('d, 'e, 'o, 'z) menu_scheme" where
  "hockey_StopButton_callback m i =
     (let m1 = m\<lparr>stopped := True\<rparr> in m1\<lparr>sink := sink m1 @ [Message_delete]\<rparr>)"

definition hockey_BaseMenu ::
  "('p, 'd, 'e, 'o) page_source \<Rightarrow> int \<Rightarrow> ('d, 'e, 'o) menu" where
  "hockey_BaseMenu src page_start =
     (let v = \<lparr>children = [First_item, Back_button, Forward_button, Last_item, Stop_button],
               first_item_disabled = False, last_item_disabled = False,
               back_button_disabled = False, forward_button_disabled = False,
               select_view = None\<rparr>;
          v1 = (case select_options src of
                  None \<Rightarrow> v
                | Some opts \<Rightarrow>
                    add_item Select_item
                      (v\<lparr>select_view := Some (HockeySelectPlayer (py_slice opts None (Some 25)))\<rparr>))
      in \<lparr>view = v1, current_page = page_start, author = None, stopped = False, sink = []\<rparr>)"

section \<open>hockey/menu.py: GamesMenu\<close>

text \<open>
  What \<open>GamesMenu\<close> takes from outside \<open>hockey/menu.py\<close>, as parameters: the
  schedule source, whose \<open>get_page\<close> takes the page number and the keywords
  \<open>skip_next\<close>, \<open>skip_prev\<close> and \<open>game_id\<close> and may change the source itself (its
  state is \<open>'x\<close>), with its attributes \<open>select_options\<close>, \<open>team\<close> and
  \<open>_last_searched\<close>; and \<open>humanize_list\<close> of the bot's formatting helpers.
  \<open>format_page\<close> is given the source's state and the session's own fields.
\<close>

record ('x, 'p, 'd, 'e, 'o) schedule_source =
  sched_get_page :: "'x \<Rightarrow> int \<Rightarrow> bool \<Rightarrow> bool \<Rightarrow> int option \<Rightarrow> (error + 'p) \<times> 'x"
  sched_get_max_pages :: "'x \<Rightarrow> int option"
  sched_format_page :: "'x \<Rightarrow> ('d, 'e, 'o) menu \<Rightarrow> 'p \<Rightarrow> ('d, 'e) page_value"
  sched_select_options :: "'x \<Rightarrow> 'o list option"
  team :: "'x \<Rightarrow> string list"
  last_searched :: "'x \<Rightarrow> string"
  humanize_list :: "string list \<Rightarrow> string"

record ('d, 'e, 'o, 'x) games_menu = "('d, 'e, 'o) menu" +
  source :: "'x"

definition HockeySelectGame :: "'o list \<Rightarrow> 'o select" where
  "HockeySelectGame opts = \<lparr>options = opts, select_disabled = False\<rparr>"

text \<open>
  The constructor.  The heatmap and gameflow buttons are attached when the source is a
  \<open>Schedule\<close> instance (\<open>is_schedule\<close>); the select is attached later, by \<open>start\<close>.
\<close>

definition GamesMenu :: "bool \<Rightarrow> 'x \<Rightarrow> ('d, 'e, 'o, 'x) games_menu" where
  "GamesMenu is_schedule x =
     \<lparr>view =
        \<lparr>children =
           [First_item, Back_button, Forward_button, Last_item, Stop_button,
            Pick_team_button, Change_date_button]
           @ (if is_schedule then [Heatmap_button, Gameflow_button] else []),
         first_item_disabled = False, last_item_disabled = False,
         back_button_disabled = False, forward_button_disabled = False,
         select_view = None\<rparr>,
      current_page = 0, author = None, stopped = False, sink = [], source = x\<rparr>"

definition format_error :: "('x, 'p, 'd, 'e, 'o) schedule_source \<Rightarrow> 'x \<Rightarrow> string" where
  "format_error ops x =
     (let team0 = [];
          team1 = (if team ops x \<noteq> [] then ''for '' @ humanize_list ops (team ops x) @ '' ''
                   else team0)
      in ''No schedule could be found '' @ team1 @ ''in dates between '' @ last_searched ops x)"

text \<open>
  \<open>show_page\<close>.  Both of its edits go through \<open>interaction.followup.edit\<close> when the
  response is done, the handler of \<open>NoSchedule\<close> included: there the TypeError of that
  call leaves the method.
\<close>

definition GamesMenu_show_page ::
  "('x, 'p, 'd, 'e, 'o) schedule_source \<Rightarrow> ('d, 'e, 'o, 'x) games_menu \<Rightarrow> int \<Rightarrow> interaction
     \<Rightarrow> bool \<Rightarrow> bool \<Rightarrow> int option \<Rightarrow> error option \<times> ('d, 'e, 'o, 'x) games_menu" where
  "GamesMenu_show_page ops m page_number i skip_next skip_prev game_id =
     (case sched_get_page ops (source m) page_number skip_next skip_prev game_id of
        (Inl e, x) \<Rightarrow>
          (let m0 = m\<lparr>source := x\<rparr> in
           if e = NoSchedule then
             (let kw = Kwargs (Some (format_error ops x)) None in
              if response_is_done i then (Some TypeError, m0)
              else (None, m0\<lparr>sink := sink m0 @ [Response_edit_message kw (view m0)]\<rparr>))
           else (Some e, m0))
      | (Inr page, x) \<Rightarrow>
          (let m0 = m\<lparr>source := x\<rparr>;
               v1 = (if (case sched_select_options ops x of
                           None \<Rightarrow> False | Some opts \<Rightarrow> length opts > 1)
                     then
                       (let opts = the (sched_select_options ops x);
                            v0 = remove_item Select_item (view m0)
                        in if page_number \<ge> 12
                           then add_item Select_item
                                  (v0\<lparr>select_view := Some (HockeySelectGame
                                     (py_slice opts (Some (page_number - 12)) (Some (page_number + 13))))\<rparr>)
                           else add_item Select_item
                                  (v0\<lparr>select_view := Some (HockeySelectGame
                                     (py_slice opts None (Some 25)))\<rparr>))
                     else view m0);
               m2 = m0\<lparr>view := v1, current_page := page_number\<rparr>;
               kwargs = kwargs_of_value (sched_format_page ops x (menu.truncate m2) page)
           in if response_is_done i then (Some TypeError, m2)
              else
                (case kwargs of
                   None \<Rightarrow> (Some TypeError, m2)
                 | Some kw \<Rightarrow>
                     (None, m2\<lparr>sink := sink m2 @ [Response_edit_message kw (view m2)]\<rparr>))))"

definition GamesMenu_show_checked_page ::
  "('x, 'p, 'd, 'e, 'o) schedule_source \<Rightarrow> ('d, 'e, 'o, 'x) games_menu \<Rightarrow> int \<Rightarrow> interaction
     \<Rightarrow> error option \<times> ('d, 'e, 'o, 'x) games_menu" where
  "GamesMenu_show_checked_page ops m page_number i =
     (let r = GamesMenu_show_page ops m page_number i False False None
      in case r of (Some IndexError, m') \<Rightarrow> (None, m') | _ \<Rightarrow> r)"

definition GamesMenu_interaction_check ::
  "('d, 'e, 'o, 'x) games_menu \<Rightarrow> interaction \<Rightarrow> bool \<times> ('d, 'e, 'o, 'x) games_menu" where
  "GamesMenu_interaction_check m i =
     (if (case author m of None \<Rightarrow> False | Some author_id \<Rightarrow> user_id i \<noteq> author_id)
      then (False, m\<lparr>sink := sink m @ [Response_send_message not_authorized True]\<rparr>)
      else (True, m))"

section \<open>Authorization\<close>

text \<open>
  C3.  An interaction whose user id differs from the captured author's id is rejected
  by all three menus: \<open>interaction_check\<close> returns \<open>False\<close>, and the session it leaves
  is the one it found with exactly one call added to the sink, the ephemeral
  "not authorized" notice.  So \<open>current_page\<close>, the controls and every other field
  keep their values, and no edit of the menu message is issued.
\<close>

theorem unauthorized_interaction_is_rejected:
  "author m = Some a \<Longrightarrow> author g = Some a \<Longrightarrow> user_id i \<noteq> a \<Longrightarrow>
     destiny_interaction_check m i =
       (Inr False, m\<lparr>sink := sink m @ [Response_send_message not_authorized True]\<rparr>)
   \<and> hockey_interaction_check m i =
       (False, m\<lparr>sink := sink m @ [Response_send_message not_authorized True]\<rparr>)
   \<and> GamesMenu_interaction_check g i =
       (False, g\<lparr>sink := sink g @ [Response_send_message not_authorized True]\<rparr>)"
  by (simp add: destiny_interaction_check_def hockey_interaction_check_def
        GamesMenu_interaction_check_def)

theorem unauthorized_interaction_is_rejected_witness:
  "destiny_interaction_check
     ((destiny_BaseMenu (VaultPages (\<lambda>menu p. Str p) [''a'', ''b'']) 0
        :: (unit, string, select_option) menu)\<lparr>author := Some 1\<rparr>)
     \<lparr>user_id = 2, response_is_done = False, message_ephemeral = False\<rparr>
   = (Inr False,
      (destiny_BaseMenu (VaultPages (\<lambda>menu p. Str p) [''a'', ''b'']) 0)
        \<lparr>author := Some 1, sink := [Response_send_message not_authorized True]\<rparr>)
   \<and> hockey_interaction_check
     ((hockey_BaseMenu (SimplePages (\<lambda>e k n. e) [Inl ''a'', Inr ''b'']) 0
        :: (unit, string, unit) menu)\<lparr>author := Some 1\<rparr>)
     \<lparr>user_id = 2, response_is_done = False, message_ephemeral = False\<rparr>
   = (False,
      (hockey_BaseMenu (SimplePages (\<lambda>e k n. e) [Inl ''a'', Inr ''b'']) 0)
        \<lparr>author := Some 1, sink := [Response_send_message not_authorized True]\<rparr>)
   \<and> GamesMenu_interaction_check
     ((GamesMenu True () :: (unit, string, unit, unit) games_menu)\<lparr>author := Some 1\<rparr>)
     \<lparr>user_id = 2, response_is_done = False, message_ephemeral = False\<rparr>
   = (False,
      (GamesMenu True ())\<lparr>author := Some 1, sink := [Response_send_message not_authorized True]\<rparr>)"
proof -
  let ?i = "\<lparr>user_id = 2, response_is_done = False, message_ephemeral = False\<rparr>"
  let ?m = "destiny_BaseMenu (VaultPages (\<lambda>menu p. Str p) [''a'', ''b'']) 0
        :: (unit, string, select_option) menu"
  let ?h = "hockey_BaseMenu (SimplePages (\<lambda>e k n. e) [Inl ''a'', Inr ''b'']
              :: (string + string, unit, string, unit) page_source) 0"
  let ?g = "GamesMenu True () :: (unit, string, unit, unit) games_menu"
  have d: "sink ?m = []"
    by (simp add: destiny_BaseMenu_def Let_def)
  have h: "sink ?h = []"
    by (simp add: hockey_BaseMenu_def Let_def split: option.split)
  have g: "sink ?g = []"
    by (simp add: GamesMenu_def)
  show ?thesis
    using unauthorized_interaction_is_rejected
      [of "?m\<lparr>author := Some 1\<rparr>" 1 "?g\<lparr>author := Some 1\<rparr>" ?i]
      unauthorized_interaction_is_rejected
      [of "?h\<lparr>author := Some 1\<rparr>" 1 "?g\<lparr>author := Some 1\<rparr>" ?i]
    by (simp add: d h g)
qed

text \<open>
  C10.  In the two hockey menus, while \<open>author\<close> is \<open>None\<close> the check returns \<open>True\<close>
  for every interaction, whoever sent it, and leaves the session as it is: no notice
  is sent.
\<close>

theorem hockey_author_None_admits_everyone:
  "author m = None \<Longrightarrow> author g = None \<Longrightarrow>
     hockey_interaction_check m i = (True, m) \<and> GamesMenu_interaction_check g i = (True, g)"
  by (simp add: hockey_interaction_check_def GamesMenu_interaction_check_def)

theorem hockey_author_None_admits_everyone_witness:
  "hockey_interaction_check
      (hockey_BaseMenu (SimplePages (\<lambda>e k n. e) [Inl ''a'', Inr ''b'']) 0
         :: (unit, string, unit) menu)
      \<lparr>user_id = 7, response_is_done = False, message_ephemeral = False\<rparr>
    = (True, hockey_BaseMenu (SimplePages (\<lambda>e k n. e) [Inl ''a'', Inr ''b'']) 0)
   \<and> GamesMenu_interaction_check (GamesMenu True () :: (unit, string, unit, unit) games_menu)
      \<lparr>user_id = 7, response_is_done = False, message_ephemeral = False\<rparr>
    = (True, GamesMenu True ())"
proof -
  let ?m = "hockey_BaseMenu (SimplePages (\<lambda>e k n. e) [Inl ''a'', Inr ''b'']
              :: (string + string, unit, string, unit) page_source) 0"
  let ?g = "GamesMenu True () :: (unit, string, unit, unit) games_menu"
  have h: "author ?m = None"
    by (simp add: hockey_BaseMenu_def Let_def split: option.split)
  have g: "author ?g = None"
    by (simp add: GamesMenu_def)
  show ?thesis
    using hockey_author_None_admits_everyone [OF h g]
    by simp
qed

section \<open>Where exceptions come from\<close>

text \<open>
  The only IndexError a \<open>show_page\<close> of the two \<open>BaseMenu\<close> classes can raise is the
  one \<open>get_page\<close> raises, and it leaves the method before anything is written.
\<close>

lemma list_index_error: "list_index xs x = Inl e \<Longrightarrow> e = ValueError"
  by (induction xs arbitrary: e) (auto split: if_splits sum.splits)

lemma check_disabled_buttons_error:
  "check_disabled_buttons src v = (Some e, v') \<Longrightarrow> e = AttributeError"
  by (auto simp: check_disabled_buttons_def Let_def split: if_splits option.splits)

lemma destiny_show_page_get_page_error:
  "get_page src n = Inl e \<Longrightarrow> destiny_show_page src m n i = (Some e, m)"
  by (simp add: destiny_show_page_def)

lemma destiny_get_kwargs_from_page_error:
  "destiny_get_kwargs_from_page src m page = (Inl e, m') \<Longrightarrow> e = AttributeError"
  by (auto simp: destiny_get_kwargs_from_page_def Let_def split: prod.splits option.splits
      dest: check_disabled_buttons_error)

lemma destiny_show_page_no_IndexError:
  assumes "get_page src n \<noteq> Inl IndexError"
  shows "fst (destiny_show_page src m n i) \<noteq> Some IndexError"
proof (cases "get_page src n")
  case (Inl e)
  with assms show ?thesis by (simp add: destiny_show_page_def)
next
  case (Inr page)
  then show ?thesis
    by (auto simp: destiny_show_page_def split: if_splits option.splits sum.splits prod.splits
        dest: list_index_error destiny_get_kwargs_from_page_error)
qed

lemma hockey_show_page_get_page_error:
  "get_page src n = Inl e \<Longrightarrow> hockey_show_page src m n i = (Some e, m)"
  by (simp add: hockey_show_page_def)

lemma hockey_show_page_no_IndexError:
  assumes "get_page src n \<noteq> Inl IndexError"
  shows "fst (hockey_show_page src m n i) \<noteq> Some IndexError"
  using assms
  by (cases "get_page src n")
     (auto simp: hockey_show_page_def Let_def split: option.splits)

lemma swallow_IndexError:
  "fst r \<noteq> Some IndexError \<Longrightarrow> (case r of (Some IndexError, m') \<Rightarrow> (None, m') | _ \<Rightarrow> r) = r"
  by (cases r) (auto split: option.splits error.splits)

text \<open>What a completed \<open>show_page\<close> has done, and where the checked navigation sends a request.\<close>

lemma hockey_show_page_sets_current_page:
  "get_page src n = Inr page \<Longrightarrow> current_page (snd (hockey_show_page src h n i)) = n"
  by (simp add: hockey_show_page_def Let_def split: option.split)

lemma hockey_show_page_result:
  assumes "get_page src n = Inr page" and "\<not> response_is_done i"
    and "kwargs_of_value (format_page src (m\<lparr>current_page := n\<rparr>) page) = Some kw"
  shows "hockey_show_page src m n i =
     (None,
      m\<lparr>current_page := n, view := update_select_view src (view m) n,
        sink := sink m @ [Response_edit_message kw (update_select_view src (view m) n)]\<rparr>)"
  using assms
  by (simp add: hockey_show_page_def hockey_get_kwargs_from_page_def Let_def)

lemma destiny_show_page_completed_edit:
  assumes "destiny_show_page src m n i = (None, m')"
  shows "\<exists>page ps kw.
           get_page src n = Inr page \<and> pages src = Some ps
         \<and> list_index ps page = Inr (current_page m')
         \<and> kwargs_of_value
              (format_page src
                 (m\<lparr>view :=
                      (if select_options src \<noteq> None \<and> n \<ge> 12
                       then add_item Select_item
                              ((remove_item Select_item (view m))
                                 \<lparr>select_view := get_select_menu src (current_page m)\<rparr>)
                       else view m),
                    current_page := current_page m'\<rparr>)
                 page) = Some kw
         \<and> sink m' = sink m @ [Response_edit_message kw (view m')]"
  using assms
  by (auto simp: destiny_show_page_def destiny_get_kwargs_from_page_def Let_def
      split: sum.splits if_splits option.splits prod.splits)

lemma destiny_show_page_lands:
  assumes "destiny_show_page src m n i = (None, m')" and "get_page src n = Inr page"
  shows "\<exists>ps. pages src = Some ps \<and> list_index ps page = Inr (current_page m')"
    and "\<exists>mid kw. current_page mid = current_page m' \<and> author mid = author m
            \<and> kwargs_of_value (format_page src mid page) = Some kw
            \<and> sink m' = sink m @ [Response_edit_message kw (view m')]"
proof -
  from destiny_show_page_completed_edit [OF assms(1)] assms(2)
  obtain ps kw where
    r: "pages src = Some ps" "list_index ps page = Inr (current_page m')"
       "kwargs_of_value
              (format_page src
                 (m\<lparr>view :=
                      (if select_options src \<noteq> None \<and> n \<ge> 12
                       then add_item Select_item
                              ((remove_item Select_item (view m))
                                 \<lparr>select_view := get_select_menu src (current_page m)\<rparr>)
                       else view m),
                    current_page := current_page m'\<rparr>)
                 page) = Some kw"
       "sink m' = sink m @ [Response_edit_message kw (view m')]"
    by auto
  show "\<exists>ps. pages src = Some ps \<and> list_index ps page = Inr (current_page m')"
    using r(1,2) by blast
  show "\<exists>mid kw. current_page mid = current_page m' \<and> author mid = author m
            \<and> kwargs_of_value (format_page src mid page) = Some kw
            \<and> sink m' = sink m @ [Response_edit_message kw (view m')]"
    using r(3,4)
    by (intro exI [of _ "m\<lparr>view :=
                      (if select_options src \<noteq> None \<and> n \<ge> 12
                       then add_item Select_item
                              ((remove_item Select_item (view m))
                                 \<lparr>select_view := get_select_menu src (current_page m)\<rparr>)
                       else view m),
                    current_page := current_page m'\<rparr>"] exI [of _ kw]) simp
qed

lemma checked_page_wraps:
  assumes "get_max_pages src = Some M" and "0 < M"
  shows "get_page src 0 \<noteq> Inl IndexError \<Longrightarrow>
           hockey_show_checked_page src h M i = hockey_show_page src h 0 i"
    and "get_page src (M - 1) \<noteq> Inl IndexError \<Longrightarrow>
           hockey_show_checked_page src h (- 1) i = hockey_show_page src h (M - 1) i"
    and "get_page src 0 \<noteq> Inl IndexError \<Longrightarrow>
           destiny_show_checked_page src m M i = destiny_show_page src m 0 i"
    and "get_page src (M - 1) \<noteq> Inl IndexError \<Longrightarrow>
           destiny_show_checked_page src m (- 1) i = destiny_show_page src m (M - 1) i"
  using assms hockey_show_page_no_IndexError [of src 0 h i]
    hockey_show_page_no_IndexError [of src "M - 1" h i]
    destiny_show_page_no_IndexError [of src 0 m i]
    destiny_show_page_no_IndexError [of src "M - 1" m i]
  by (simp_all add: hockey_show_checked_page_def destiny_show_checked_page_def swallow_IndexError)

section \<open>Checked navigation and errors\<close>

text \<open>
  C6.  With an unknown maximum (\<open>get_max_pages\<close> is \<open>None\<close>) the checked navigation of
  both \<open>BaseMenu\<close> classes calls \<open>show_page\<close> with the requested number itself, and
  what happens next is decided by \<open>get_page(n)\<close> for that very number, whatever \<open>n\<close>
  is.  When \<open>get_page(n)\<close> returns a page, the hockey menu ends with \<open>current_page\<close>
  \<open>n\<close> and, on an interaction not yet responded to, with one edit that carries that
  page as rendered; a completed destiny call ends with \<open>current_page\<close> the index of that
  page in \<open>pages\<close> and with one edit that carries that page as rendered.  And whenever
  \<open>get_page\<close> raises IndexError on the page the checked navigation asks for (the
  requested one, or the one the four-way test replaces it with), the call ends normally
  and the session is the one it started from: \<open>current_page\<close> and the sink, to which no
  edit is added, included.
\<close>

theorem checked_page_unknown_maximum_and_index_error:
  "(get_max_pages src = None \<longrightarrow>
       destiny_show_checked_page src m n i =
         (if get_page src n = Inl IndexError then (None, m) else destiny_show_page src m n i)
     \<and> hockey_show_checked_page src m n i =
         (if get_page src n = Inl IndexError then (None, m) else hockey_show_page src m n i))
   \<and> (get_page src
         (case get_max_pages src of
            None \<Rightarrow> n
          | Some max_pages \<Rightarrow>
              if n \<ge> max_pages then 0 else if n < 0 then max_pages - 1 else n) = Inl IndexError \<longrightarrow>
       destiny_show_checked_page src m n i = (None, m)
     \<and> hockey_show_checked_page src m n i = (None, m))
   \<and> (get_max_pages src = None \<and> get_page src n = Inr page \<longrightarrow>
       current_page (snd (hockey_show_checked_page src m n i)) = n)
   \<and> (get_max_pages src = None \<and> get_page src n = Inr page \<and> \<not> response_is_done i
        \<and> kwargs_of_value (format_page src (m\<lparr>current_page := n\<rparr>) page) = Some kw \<longrightarrow>
       hockey_show_checked_page src m n i =
         (None,
          m\<lparr>current_page := n, view := update_select_view src (view m) n,
            sink := sink m @ [Response_edit_message kw (update_select_view src (view m) n)]\<rparr>))
   \<and> (get_max_pages src = None \<and> get_page src n = Inr page
        \<and> destiny_show_checked_page src m n i = (None, m') \<longrightarrow>
       (\<exists>ps. pages src = Some ps \<and> list_index ps page = Inr (current_page m'))
     \<and> (\<exists>mid kw. current_page mid = current_page m' \<and> author mid = author m
            \<and> kwargs_of_value (format_page src mid page) = Some kw
            \<and> sink m' = sink m @ [Response_edit_message kw (view m')]))"
proof (intro conjI impI)
  assume u: "get_max_pages src = None"
  show "destiny_show_checked_page src m n i =
         (if get_page src n = Inl IndexError then (None, m) else destiny_show_page src m n i)"
    using u destiny_show_page_no_IndexError [of src n m i]
    by (simp add: destiny_show_checked_page_def destiny_show_page_get_page_error swallow_IndexError)
  show "hockey_show_checked_page src m n i =
         (if get_page src n = Inl IndexError then (None, m) else hockey_show_page src m n i)"
    using u hockey_show_page_no_IndexError [of src n m i]
    by (simp add: hockey_show_checked_page_def hockey_show_page_get_page_error swallow_IndexError)
next
  assume e: "get_page src
         (case get_max_pages src of
            None \<Rightarrow> n
          | Some max_pages \<Rightarrow>
              if n \<ge> max_pages then 0 else if n < 0 then max_pages - 1 else n) = Inl IndexError"
  show "destiny_show_checked_page src m n i = (None, m)"
    using e
    by (auto simp: destiny_show_checked_page_def destiny_show_page_get_page_error
        split: option.splits if_splits)
  show "hockey_show_checked_page src m n i = (None, m)"
    using e
    by (auto simp: hockey_show_checked_page_def hockey_show_page_get_page_error
        split: option.splits if_splits)
next
  assume a: "get_max_pages src = None \<and> get_page src n = Inr page"
  then have u: "get_max_pages src = None" and g: "get_page src n = Inr page"
    by blast+
  from g have "fst (hockey_show_page src m n i) \<noteq> Some IndexError"
    by (intro hockey_show_page_no_IndexError) simp
  with u g show "current_page (snd (hockey_show_checked_page src m n i)) = n"
    by (simp add: hockey_show_checked_page_def swallow_IndexError
        hockey_show_page_sets_current_page)
next
  assume a: "get_max_pages src = None \<and> get_page src n = Inr page \<and> \<not> response_is_done i
        \<and> kwargs_of_value (format_page src (m\<lparr>current_page := n\<rparr>) page) = Some kw"
  then have g: "get_page src n = Inr page" and d: "\<not> response_is_done i"
    and k: "kwargs_of_value (format_page src (m\<lparr>current_page := n\<rparr>) page) = Some kw"
    by blast+
  from a have u: "get_max_pages src = None"
    by blast
  note hockey_show_page_result [OF g d k]
  with u show "hockey_show_checked_page src m n i =
         (None,
          m\<lparr>current_page := n, view := update_select_view src (view m) n,
            sink := sink m @ [Response_edit_message kw (update_select_view src (view m) n)]\<rparr>)"
    by (simp add: hockey_show_checked_page_def)
next
  assume a: "get_max_pages src = None \<and> get_page src n = Inr page
        \<and> destiny_show_checked_page src m n i = (None, m')"
  then have u: "get_max_pages src = None" and g: "get_page src n = Inr page"
    and c: "destiny_show_checked_page src m n i = (None, m')"
    by blast+
  from g have "fst (destiny_show_page src m n i) \<noteq> Some IndexError"
    by (intro destiny_show_page_no_IndexError) simp
  with u have "destiny_show_checked_page src m n i = destiny_show_page src m n i"
    by (simp add: destiny_show_checked_page_def swallow_IndexError)
  with c have "destiny_show_page src m n i = (None, m')"
    by simp
  from destiny_show_page_completed_edit [OF this] g
  obtain ps kw where
    r: "pages src = Some ps" "list_index ps page = Inr (current_page m')"
       "kwargs_of_value
              (format_page src
                 (m\<lparr>view :=
                      (if select_options src \<noteq> None \<and> n \<ge> 12
                       then add_item Select_item
                              ((remove_item Select_item (view m))
                                 \<lparr>select_view := get_select_menu src (current_page m)\<rparr>)
                       else view m),
                    current_page := current_page m'\<rparr>)
                 page) = Some kw"
       "sink m' = sink m @ [Response_edit_message kw (view m')]"
    by auto
  show "\<exists>ps. pages src = Some ps \<and> list_index ps page = Inr (current_page m')"
    using r(1,2) by blast
  show "\<exists>mid kw. current_page mid = current_page m' \<and> author mid = author m
            \<and> kwargs_of_value (format_page src mid page) = Some kw
            \<and> sink m' = sink m @ [Response_edit_message kw (view m')]"
    using r(3,4)
    by (intro exI [of _ "m\<lparr>view :=
                      (if select_options src \<noteq> None \<and> n \<ge> 12
                       then add_item Select_item
                              ((remove_item Select_item (view m))
                                 \<lparr>select_view := get_select_menu src (current_page m)\<rparr>)
                       else view m),
                    current_page := current_page m'\<rparr>"] exI [of _ kw]) simp
qed

theorem checked_page_unknown_maximum_and_index_error_witness:
  "(let get = (\<lambda>n :: int. if n = 7 then Inr ''seven''
                          else if n = - 3 then Inr ''minus three'' else Inl IndexError);
        hs = (\<lparr>entries = [''a''], pages = None, get_page = get, get_max_pages = None,
               format_page = (\<lambda>menu p. Str p), select_options = None\<rparr>
              :: (string, unit, string, unit) page_source);
        ds = (\<lparr>entries = [''a''], pages = Some [''minus three'', ''seven''], get_page = get,
               get_max_pages = None, format_page = (\<lambda>menu p. Str p), select_options = None\<rparr>
              :: (string, unit, string, unit) page_source);
        vs = (VaultPages (\<lambda>menu p. Str p) ([] :: string list)
              :: (string, unit, string, select_option) page_source);
        i = \<lparr>user_id = 1, response_is_done = False, message_ephemeral = False\<rparr>;
        h0 = hockey_BaseMenu hs 0;
        d0 = destiny_BaseMenu ds 0;
        r = destiny_show_checked_page ds d0 7 i
    in hockey_show_checked_page hs h0 7 i =
         (None, h0\<lparr>current_page := 7,
                    sink := [Response_edit_message (Kwargs (Some ''seven'') None) (view h0)]\<rparr>)
     \<and> hockey_show_checked_page hs h0 (- 3) i =
         (None, h0\<lparr>current_page := - 3,
                    sink := [Response_edit_message (Kwargs (Some ''minus three'') None) (view h0)]\<rparr>)
     \<and> hockey_show_checked_page hs h0 5 i = (None, h0)
     \<and> fst r = None \<and> current_page (snd r) = 1
     \<and> sink (snd r) = [Response_edit_message (Kwargs (Some ''seven'') None) (view (snd r))]
     \<and> destiny_show_checked_page ds d0 5 i = (None, d0)
     \<and> destiny_show_checked_page vs (destiny_BaseMenu vs 0) 1 i = (None, destiny_BaseMenu vs 0))"
proof -
  let ?get = "\<lambda>n :: int. if n = 7 then Inr ''seven''
                          else if n = - 3 then Inr ''minus three'' else Inl IndexError"
  let ?hs = "\<lparr>entries = [''a''], pages = None, get_page = ?get, get_max_pages = None,
               format_page = (\<lambda>menu p. Str p), select_options = None\<rparr>
              :: (string, unit, string, unit) page_source"
  let ?ds = "\<lparr>entries = [''a''], pages = Some [''minus three'', ''seven''], get_page = ?get,
               get_max_pages = None, format_page = (\<lambda>menu p. Str p), select_options = None\<rparr>
              :: (string, unit, string, unit) page_source"
  let ?vs = "VaultPages (\<lambda>menu p. Str p) ([] :: string list)
              :: (string, unit, string, select_option) page_source"
  let ?i = "\<lparr>user_id = 1, response_is_done = False, message_ephemeral = False\<rparr>"
  let ?h0 = "hockey_BaseMenu ?hs 0"
  let ?d0 = "destiny_BaseMenu ?ds 0"
  let ?r = "destiny_show_checked_page ?ds ?d0 7 ?i"
  have h0: "sink ?h0 = []" "update_select_view ?hs (view ?h0) 7 = view ?h0"
      "update_select_view ?hs (view ?h0) (- 3) = view ?h0"
    by (simp_all add: hockey_BaseMenu_def update_select_view_def Let_def)
  have d0: "sink ?d0 = []"
    by (simp add: destiny_BaseMenu_def Let_def)
  have a7: "get_max_pages ?hs = None \<and> get_page ?hs 7 = Inr ''seven'' \<and> \<not> response_is_done ?i
        \<and> kwargs_of_value (format_page ?hs (?h0\<lparr>current_page := 7\<rparr>) ''seven'')
            = Some (Kwargs (Some ''seven'') None)"
    by (simp add: kwargs_of_value_def)
  have a3: "get_max_pages ?hs = None \<and> get_page ?hs (- 3) = Inr ''minus three''
        \<and> \<not> response_is_done ?i
        \<and> kwargs_of_value (format_page ?hs (?h0\<lparr>current_page := - 3\<rparr>) ''minus three'')
            = Some (Kwargs (Some ''minus three'') None)"
    by (simp add: kwargs_of_value_def)
  have a5: "get_page ?hs (case get_max_pages ?hs of None \<Rightarrow> 5
          | Some max_pages \<Rightarrow>
              if 5 \<ge> max_pages then 0 else if (5::int) < 0 then max_pages - 1 else 5)
        = Inl IndexError"
    by simp
  have b5: "get_page ?ds (case get_max_pages ?ds of None \<Rightarrow> 5
          | Some max_pages \<Rightarrow>
              if 5 \<ge> max_pages then 0 else if (5::int) < 0 then max_pages - 1 else 5)
        = Inl IndexError"
    by simp
  have v1: "get_page ?vs (case get_max_pages ?vs of None \<Rightarrow> 1
          | Some max_pages \<Rightarrow>
              if 1 \<ge> max_pages then 0 else if (1::int) < 0 then max_pages - 1 else 1)
        = Inl IndexError"
    by (simp add: VaultPages_def ListPageSource_get_page_def ListPageSource_get_max_pages_def)
  have f: "fst ?r = None"
    by (simp add: destiny_show_checked_page_def destiny_show_page_def destiny_BaseMenu_def
        Let_def destiny_get_kwargs_from_page_def check_disabled_buttons_def kwargs_of_value_def)
  then have c: "get_max_pages ?ds = None \<and> get_page ?ds 7 = Inr ''seven''
        \<and> ?r = (None, snd ?r)"
    by (simp add: prod_eq_iff)
  note w1 = checked_page_unknown_maximum_and_index_error
    [where src = ?hs and m = ?h0 and n = 7 and i = ?i and page = "''seven''"
       and kw = "Kwargs (Some ''seven'') None",
     THEN conjunct2, THEN conjunct2, THEN conjunct2, THEN conjunct1, THEN mp, OF a7]
  note w2 = checked_page_unknown_maximum_and_index_error
    [where src = ?hs and m = ?h0 and n = "- 3" and i = ?i and page = "''minus three''"
       and kw = "Kwargs (Some ''minus three'') None",
     THEN conjunct2, THEN conjunct2, THEN conjunct2, THEN conjunct1, THEN mp, OF a3]
  note w3 = checked_page_unknown_maximum_and_index_error
    [where src = ?hs and m = ?h0 and n = 5 and i = ?i,
     THEN conjunct2, THEN conjunct1, THEN mp, OF a5, THEN conjunct2]
  note w4 = checked_page_unknown_maximum_and_index_error
    [where src = ?ds and m = ?d0 and n = 7 and i = ?i and page = "''seven''"
       and m' = "snd ?r",
     THEN conjunct2, THEN conjunct2, THEN conjunct2, THEN conjunct2, THEN mp, OF c]
  note w5 = checked_page_unknown_maximum_and_index_error
    [where src = ?ds and m = ?d0 and n = 5 and i = ?i,
     THEN conjunct2, THEN conjunct1, THEN mp, OF b5, THEN conjunct1]
  note w6 = checked_page_unknown_maximum_and_index_error
    [where src = ?vs and m = "destiny_BaseMenu ?vs 0" and n = 1 and i = ?i,
     THEN conjunct2, THEN conjunct1, THEN mp, OF v1, THEN conjunct1]
  have 1: "hockey_show_checked_page ?hs ?h0 7 ?i =
         (None, ?h0\<lparr>current_page := 7,
                    sink := [Response_edit_message (Kwargs (Some ''seven'') None) (view ?h0)]\<rparr>)"
    using w1 by (simp add: h0)
  have 2: "hockey_show_checked_page ?hs ?h0 (- 3) ?i =
         (None, ?h0\<lparr>current_page := - 3,
                    sink := [Response_edit_message (Kwargs (Some ''minus three'') None) (view ?h0)]\<rparr>)"
    using w2 by (simp add: h0)
  have 4: "current_page (snd ?r) = 1"
    using w4 [THEN conjunct1] by auto
  have 5: "sink (snd ?r) = [Response_edit_message (Kwargs (Some ''seven'') None) (view (snd ?r))]"
    using w4 [THEN conjunct2] by (auto simp: d0 kwargs_of_value_def)
  show ?thesis
    unfolding Let_def using 1 2 w3 f 4 5 w5 w6 by simp
qed



section \<open>The Stop control\<close>

text \<open>
  C7, as amended.  The Stop control of the destiny menu stops the view and then deletes
  the message when the message is not ephemeral, and edits the view away, without a
  delete, when it is.  The Stop control of the hockey menus stops the view and deletes
  the message in every case: it does not look at the ephemeral flag.
\<close>

theorem stop_button_destiny_and_hockey:
  "stopped (destiny_StopButton_callback m i)
   \<and> (\<not> message_ephemeral i \<longrightarrow>
        sink (destiny_StopButton_callback m i) = sink m @ [Message_delete])
   \<and> (message_ephemeral i \<longrightarrow>
        sink (destiny_StopButton_callback m i) = sink m @ [Response_edit_message_view_None])
   \<and> stopped (hockey_StopButton_callback g i)
   \<and> sink (hockey_StopButton_callback g i) = sink g @ [Message_delete]"
  by (simp add: destiny_StopButton_callback_def hockey_StopButton_callback_def Let_def)

theorem stop_button_destiny_and_hockey_witness:
  "sink (destiny_StopButton_callback
      (destiny_BaseMenu (VaultPages (\<lambda>menu p. Str p) [''a'', ''b'']) 0
         :: (unit, string, select_option) menu)
      \<lparr>user_id = 1, response_is_done = False, message_ephemeral = False\<rparr>) = [Message_delete]
   \<and> sink (destiny_StopButton_callback
      (destiny_BaseMenu (VaultPages (\<lambda>menu p. Str p) [''a'', ''b'']) 0
         :: (unit, string, select_option) menu)
      \<lparr>user_id = 1, response_is_done = False, message_ephemeral = True\<rparr>)
       = [Response_edit_message_view_None]"
proof -
  let ?m = "destiny_BaseMenu (VaultPages (\<lambda>menu p. Str p) [''a'', ''b'']) 0
         :: (unit, string, select_option) menu"
  have s: "sink ?m = []"
    by (simp add: destiny_BaseMenu_def Let_def)
  show ?thesis
    using stop_button_destiny_and_hockey
        [of ?m "\<lparr>user_id = 1, response_is_done = False, message_ephemeral = False\<rparr>" ?m]
      stop_button_destiny_and_hockey
        [of ?m "\<lparr>user_id = 1, response_is_done = False, message_ephemeral = True\<rparr>" ?m]
    by (simp add: s)
qed

text \<open>
  The claim as first stated fails on the hockey Stop control: pressed on an ephemeral
  message, its one call on the sink is the delete.
\<close>

theorem hockey_stop_deletes_ephemeral_message:
  "sink (hockey_StopButton_callback
      (hockey_BaseMenu (SimplePages (\<lambda>e k n. e) [Inl ''a'', Inr ''b'']) 0
         :: (unit, string, unit) menu)
      \<lparr>user_id = 1, response_is_done = False, message_ephemeral = True\<rparr>) = [Message_delete]"
  by (simp add: hockey_StopButton_callback_def hockey_BaseMenu_def SimplePages_def Let_def)

section \<open>The select window\<close>

text \<open>Slices whose bounds are not negative are \<open>take\<close> and \<open>drop\<close>.\<close>

lemma py_slice_to: "0 \<le> b \<Longrightarrow> py_slice xs None (Some b) = take (nat b) xs"
  by (simp add: py_slice_def slice_bound_def Let_def min_def)

lemma py_slice_from: "0 \<le> a \<Longrightarrow> py_slice xs (Some a) None = drop (nat a) xs"
  by (simp add: py_slice_def slice_bound_def Let_def min_def)

lemma py_slice_from_to:
  "0 \<le> a \<Longrightarrow> a \<le> b \<Longrightarrow> py_slice xs (Some a) (Some b) = take (nat (b - a)) (drop (nat a) xs)"
  by (auto simp: py_slice_def slice_bound_def Let_def min_def nat_diff_distrib)

text \<open>
  C2, as amended.  In the destiny menu, \<open>_get_select_menu\<close> builds, from an option list
  of length L and the session's \<open>current_page\<close> c at the call, a select that holds all
  options when L \<le> 25, options [c-12, c+13) when 12 < c < L - 25, the last 25 options
  when c \<ge> L - 25, and the first 25 otherwise; so for L > 25 it holds exactly 25
  options.  In the hockey menus (\<open>BaseMenu.update_select_view\<close>, and
  \<open>GamesMenu.show_page\<close> when the source has more than one option) the select holds the
  first 25 options when the page number p is below 12 and options [p-12, p+13)
  otherwise: at most 25 options, and fewer when the list ends before p+13.
\<close>

theorem select_window_of_each_menu:
  "(select_options src = Some opts \<longrightarrow>
      get_select_menu src c =
        Some (DestinySelect
          (if length opts \<le> 25 then opts
           else if 12 < c \<and> c < int (length opts) - 25 then take 25 (drop (nat (c - 12)) opts)
           else if c \<ge> int (length opts) - 25 then drop (length opts - 25) opts
           else take 25 opts))
    \<and> (length opts > 25 \<longrightarrow> length (options (the (get_select_menu src c))) = 25))
   \<and> (select_options src = Some opts \<longrightarrow>
        select_view (update_select_view src v p) =
          Some (HockeySelectPlayer
            (if p \<ge> 12 then take 25 (drop (nat (p - 12)) opts) else take 25 opts)))
   \<and> (sched_get_page ops (source g) p skip_next skip_prev game_id = (Inr page, x)
        \<and> sched_select_options ops x = Some gopts \<and> length gopts > 1 \<longrightarrow>
        select_view (view (snd (GamesMenu_show_page ops g p i skip_next skip_prev game_id))) =
          Some (HockeySelectGame
            (if p \<ge> 12 then take 25 (drop (nat (p - 12)) gopts) else take 25 gopts)))"
proof (intro conjI impI)
  assume s: "select_options src = Some opts"
  show d: "get_select_menu src c =
        Some (DestinySelect
          (if length opts \<le> 25 then opts
           else if 12 < c \<and> c < int (length opts) - 25 then take 25 (drop (nat (c - 12)) opts)
           else if c \<ge> int (length opts) - 25 then drop (length opts - 25) opts
           else take 25 opts))"
    using s
    by (auto simp: get_select_menu_def py_slice_to py_slice_from py_slice_from_to nat_diff_distrib)
  show "length (options (the (get_select_menu src c))) = 25" if "25 < length opts"
    using that by (auto simp: d DestinySelect_def)
next
  assume s: "select_options src = Some opts"
  show "select_view (update_select_view src v p) =
          Some (HockeySelectPlayer
            (if p \<ge> 12 then take 25 (drop (nat (p - 12)) opts) else take 25 opts))"
    using s
    by (simp add: update_select_view_def Let_def add_item_def py_slice_to py_slice_from_to)
next
  assume a: "sched_get_page ops (source g) p skip_next skip_prev game_id = (Inr page, x)
        \<and> sched_select_options ops x = Some gopts \<and> length gopts > 1"
  show "select_view (view (snd (GamesMenu_show_page ops g p i skip_next skip_prev game_id))) =
          Some (HockeySelectGame
            (if p \<ge> 12 then take 25 (drop (nat (p - 12)) gopts) else take 25 gopts))"
    using a
    by (simp add: GamesMenu_show_page_def Let_def add_item_def py_slice_to py_slice_from_to
        split: option.split)
qed

theorem select_window_of_each_menu_witness:
  "map option_value (options (the (get_select_menu
      (VaultPages (\<lambda>menu p. Str ''item'')
         ([0, 1, 2, 3, 4, 5, 6, 7, 8, 9, 10, 11, 12, 13, 14, 15, 16, 17, 18, 19,
           20, 21, 22, 23, 24, 25, 26, 27, 28, 29] :: int list)
       :: (int, unit, string, select_option) page_source) 20)))
     = [5, 6, 7, 8, 9, 10, 11, 12, 13, 14, 15, 16, 17, 18, 19,
        20, 21, 22, 23, 24, 25, 26, 27, 28, 29]
   \<and> map option_value (options (the (select_view (update_select_view
      (PlayerPages (\<lambda>menu p. Str ''stats'') (\<lambda>k. ''name'')
         [0, 1, 2, 3, 4, 5, 6, 7, 8, 9, 10, 11, 12, 13, 14, 15, 16, 17, 18, 19,
           20, 21, 22, 23, 24, 25, 26, 27, 28, 29]
       :: (int, unit, string, select_option) page_source)
      (view (hockey_BaseMenu
         (PlayerPages (\<lambda>menu p. Str ''stats'') (\<lambda>k. ''name'')
            [0, 1, 2, 3, 4, 5, 6, 7, 8, 9, 10, 11, 12, 13, 14, 15, 16, 17, 18, 19,
           20, 21, 22, 23, 24, 25, 26, 27, 28, 29]
          :: (int, unit, string, select_option) page_source) 0 :: (unit, string, select_option) menu))
      25))))
     = [13, 14, 15, 16, 17, 18, 19, 20, 21, 22, 23, 24, 25, 26, 27, 28, 29]
   \<and> options (the (select_view (view (snd (GamesMenu_show_page
      \<lparr>sched_get_page = (\<lambda>x n sn sp gid. (Inr ''game'', x)), sched_get_max_pages = (\<lambda>x. None),
        sched_format_page = (\<lambda>x menu p. Str p),
        sched_select_options = (\<lambda>x. Some [''g1'', ''g2'', ''g3'']),
        team = (\<lambda>x. []), last_searched = (\<lambda>x. ''today''), humanize_list = concat\<rparr>
      (GamesMenu True () :: (unit, string, string, unit) games_menu) 0
      \<lparr>user_id = 1, response_is_done = False, message_ephemeral = False\<rparr> False False None)))))
     = [''g1'', ''g2'', ''g3'']"
proof -
  let ?d = "VaultPages (\<lambda>menu p. Str ''item'')
         ([0, 1, 2, 3, 4, 5, 6, 7, 8, 9, 10, 11, 12, 13, 14, 15, 16, 17, 18, 19,
           20, 21, 22, 23, 24, 25, 26, 27, 28, 29] :: int list)
       :: (int, unit, string, select_option) page_source"
  let ?h = "PlayerPages (\<lambda>menu p. Str ''stats'') (\<lambda>k. ''name'')
         [0, 1, 2, 3, 4, 5, 6, 7, 8, 9, 10, 11, 12, 13, 14, 15, 16, 17, 18, 19,
           20, 21, 22, 23, 24, 25, 26, 27, 28, 29]
       :: (int, unit, string, select_option) page_source"
  let ?ops = "\<lparr>sched_get_page = (\<lambda>x n sn sp gid. (Inr ''game'', x)), sched_get_max_pages = (\<lambda>x. None),
        sched_format_page = (\<lambda>x menu p. Str p),
        sched_select_options = (\<lambda>x. Some [''g1'', ''g2'', ''g3'']),
        team = (\<lambda>x. []), last_searched = (\<lambda>x. ''today''), humanize_list = concat\<rparr>
       :: (unit, string, unit, string, string) schedule_source"
  let ?g = "GamesMenu True () :: (unit, string, string, unit) games_menu"
  let ?i = "\<lparr>user_id = 1, response_is_done = False, message_ephemeral = False\<rparr>"
  have d: "select_options ?d = Some (vault_select_options 0 [0, 1, 2, 3, 4, 5, 6, 7, 8, 9, 10, 11, 12, 13, 14, 15, 16, 17, 18, 19,
           20, 21, 22, 23, 24, 25, 26, 27, 28, 29])"
    by (simp add: VaultPages_def)
  have h: "select_options ?h = Some (player_select_options (\<lambda>k. ''name'') 0 [0, 1, 2, 3, 4, 5, 6, 7, 8, 9, 10, 11, 12, 13, 14, 15, 16, 17, 18, 19,
           20, 21, 22, 23, 24, 25, 26, 27, 28, 29])"
    by (simp add: PlayerPages_def)
  have g: "sched_get_page ?ops (source ?g) 0 False False None = (Inr ''game'', ())
        \<and> sched_select_options ?ops () = Some [''g1'', ''g2'', ''g3'']
        \<and> length [''g1'', ''g2'', ''g3''] > 1"
    by simp
  note t = select_window_of_each_menu
    [where src = ?d and opts = "vault_select_options 0 [0, 1, 2, 3, 4, 5, 6, 7, 8, 9, 10, 11, 12, 13, 14, 15, 16, 17, 18, 19,
           20, 21, 22, 23, 24, 25, 26, 27, 28, 29]" and c = 20
       and ops = ?ops and g = ?g and p = 0 and skip_next = False and skip_prev = False
       and game_id = None and page = "''game''" and x = "()"
       and gopts = "[''g1'', ''g2'', ''g3'']" and i = ?i]
  note u = select_window_of_each_menu
    [where src = ?h and opts = "player_select_options (\<lambda>k. ''name'') 0 [0, 1, 2, 3, 4, 5, 6, 7, 8, 9, 10, 11, 12, 13, 14, 15, 16, 17, 18, 19,
           20, 21, 22, 23, 24, 25, 26, 27, 28, 29]" and p = 25
       and v = "view (hockey_BaseMenu ?h 0 :: (unit, string, select_option) menu)"
       and ops = ?ops and g = ?g]
  have 1: "map option_value (options (the (get_select_menu ?d 20)))
     = [5, 6, 7, 8, 9, 10, 11, 12, 13, 14, 15, 16, 17, 18, 19,
        20, 21, 22, 23, 24, 25, 26, 27, 28, 29]"
    using t d by (simp add: DestinySelect_def)
  have 2: "map option_value (options (the (select_view (update_select_view ?h
      (view (hockey_BaseMenu ?h 0 :: (unit, string, select_option) menu)) 25))))
     = [13, 14, 15, 16, 17, 18, 19, 20, 21, 22, 23, 24, 25, 26, 27, 28, 29]"
    using u h by (simp add: HockeySelectPlayer_def)
  have 3: "options (the (select_view (view (snd
      (GamesMenu_show_page ?ops ?g 0 ?i False False None)))))
     = [''g1'', ''g2'', ''g3'']"
    using t g by (simp add: HockeySelectGame_def)
  show ?thesis
    using 1 2 3 by simp
qed

text \<open>
  The claim as first stated fails on the hockey menu: with 30 players and page 25 the
  select holds the 17 options from 13 on, not the last 25.
\<close>

theorem hockey_select_window_shrinks_near_the_end: "map option_value (options (the (select_view (view (snd
    (hockey_show_page
       (PlayerPages (\<lambda>menu p. Str ''stats'') (\<lambda>k. ''name'')
          [0, 1, 2, 3, 4, 5, 6, 7, 8, 9, 10, 11, 12, 13, 14, 15, 16, 17, 18, 19,
           20, 21, 22, 23, 24, 25, 26, 27, 28, 29])
       (hockey_BaseMenu
         (PlayerPages (\<lambda>menu p. Str ''stats'') (\<lambda>k. ''name'')
          [0, 1, 2, 3, 4, 5, 6, 7, 8, 9, 10, 11, 12, 13, 14, 15, 16, 17, 18, 19,
           20, 21, 22, 23, 24, 25, 26, 27, 28, 29]) 0 :: (unit, string, select_option) menu)
       25 \<lparr>user_id = 1, response_is_done = False, message_ephemeral = False\<rparr>))))))
   = [13, 14, 15, 16, 17, 18, 19, 20, 21, 22, 23, 24, 25, 26, 27, 28, 29]"
  by (simp add: hockey_show_page_def hockey_BaseMenu_def PlayerPages_def Let_def
      ListPageSource_get_page_def hockey_get_kwargs_from_page_def kwargs_of_value_def
      update_select_view_def add_item_def remove_item_def py_slice_def slice_bound_def
      HockeySelectPlayer_def)

section \<open>Disabled controls\<close>

lemma check_disabled_buttons_flags:
  assumes "check_disabled_buttons src v = (None, v')"
  shows "first_item_disabled v' = (length (entries src) = 1)"
    and "last_item_disabled v' = (length (entries src) = 1)"
    and "back_button_disabled v' = (length (entries src) = 1)"
    and "forward_button_disabled v' = (length (entries src) = 1)"
    and "select_options src \<noteq> None \<Longrightarrow>
           \<exists>sel. select_view v' = Some sel \<and> select_disabled sel = (length (entries src) = 1)"
  using assms
  by (auto simp: check_disabled_buttons_def Let_def split: if_splits option.splits)

lemma destiny_show_page_completed:
  assumes "destiny_show_page src m n i = (None, m')"
  shows "\<exists>v. check_disabled_buttons src v = (None, view m')"
  using assms
  by (auto simp: destiny_show_page_def destiny_get_kwargs_from_page_def Let_def
      split: sum.splits if_splits option.splits prod.splits)

text \<open>
  C5, as amended.  In the destiny menu, after every completed \<open>show_page\<close> the first,
  last, back and forward buttons, and the select when the source has select options,
  are all disabled when the source has exactly one entry and all enabled when it has
  any other number of entries, whatever the page.  The hockey \<open>BaseMenu\<close> has no such
  rule: its \<open>show_page\<close> leaves the four buttons' flags as it found them and attaches
  an enabled select, and its constructor builds the four buttons enabled; so in the
  hockey menu the controls are enabled after every transition, with a single entry too.
\<close>

theorem disabled_controls_after_a_transition:
  "(destiny_show_page src m n i = (None, m') \<longrightarrow>
      (length (entries src) = 1 \<longrightarrow>
         first_item_disabled (view m') \<and> last_item_disabled (view m')
         \<and> back_button_disabled (view m') \<and> forward_button_disabled (view m')
         \<and> (select_options src \<noteq> None \<longrightarrow>
              (\<exists>sel. select_view (view m') = Some sel \<and> select_disabled sel)))
    \<and> (length (entries src) \<noteq> 1 \<longrightarrow>
         \<not> first_item_disabled (view m') \<and> \<not> last_item_disabled (view m')
         \<and> \<not> back_button_disabled (view m') \<and> \<not> forward_button_disabled (view m')
         \<and> (select_options src \<noteq> None \<longrightarrow>
              (\<exists>sel. select_view (view m') = Some sel \<and> \<not> select_disabled sel))))
   \<and> first_item_disabled (view (snd (hockey_show_page src h n i))) = first_item_disabled (view h)
   \<and> last_item_disabled (view (snd (hockey_show_page src h n i))) = last_item_disabled (view h)
   \<and> back_button_disabled (view (snd (hockey_show_page src h n i))) = back_button_disabled (view h)
   \<and> forward_button_disabled (view (snd (hockey_show_page src h n i)))
       = forward_button_disabled (view h)
   \<and> (fst (hockey_show_page src h n i) = None \<and> select_options src \<noteq> None \<longrightarrow>
        (\<exists>sel. select_view (view (snd (hockey_show_page src h n i))) = Some sel
               \<and> \<not> select_disabled sel))
   \<and> \<not> first_item_disabled (view (hockey_BaseMenu src page_start))
   \<and> \<not> last_item_disabled (view (hockey_BaseMenu src page_start))
   \<and> \<not> back_button_disabled (view (hockey_BaseMenu src page_start))
   \<and> \<not> forward_button_disabled (view (hockey_BaseMenu src page_start))"
proof -
  have d: "destiny_show_page src m n i = (None, m') \<longrightarrow>
      (length (entries src) = 1 \<longrightarrow>
         first_item_disabled (view m') \<and> last_item_disabled (view m')
         \<and> back_button_disabled (view m') \<and> forward_button_disabled (view m')
         \<and> (select_options src \<noteq> None \<longrightarrow>
              (\<exists>sel. select_view (view m') = Some sel \<and> select_disabled sel)))
    \<and> (length (entries src) \<noteq> 1 \<longrightarrow>
         \<not> first_item_disabled (view m') \<and> \<not> last_item_disabled (view m')
         \<and> \<not> back_button_disabled (view m') \<and> \<not> forward_button_disabled (view m')
         \<and> (select_options src \<noteq> None \<longrightarrow>
              (\<exists>sel. select_view (view m') = Some sel \<and> \<not> select_disabled sel)))"
  proof
    assume "destiny_show_page src m n i = (None, m')"
    then obtain v where c: "check_disabled_buttons src v = (None, view m')"
      using destiny_show_page_completed by blast
    show "(length (entries src) = 1 \<longrightarrow>
         first_item_disabled (view m') \<and> last_item_disabled (view m')
         \<and> back_button_disabled (view m') \<and> forward_button_disabled (view m')
         \<and> (select_options src \<noteq> None \<longrightarrow>
              (\<exists>sel. select_view (view m') = Some sel \<and> select_disabled sel)))
    \<and> (length (entries src) \<noteq> 1 \<longrightarrow>
         \<not> first_item_disabled (view m') \<and> \<not> last_item_disabled (view m')
         \<and> \<not> back_button_disabled (view m') \<and> \<not> forward_button_disabled (view m')
         \<and> (select_options src \<noteq> None \<longrightarrow>
              (\<exists>sel. select_view (view m') = Some sel \<and> \<not> select_disabled sel)))"
      using check_disabled_buttons_flags [OF c] by auto
  qed
  have h: "first_item_disabled (view (snd (hockey_show_page src h n i))) = first_item_disabled (view h)
   \<and> last_item_disabled (view (snd (hockey_show_page src h n i))) = last_item_disabled (view h)
   \<and> back_button_disabled (view (snd (hockey_show_page src h n i))) = back_button_disabled (view h)
   \<and> forward_button_disabled (view (snd (hockey_show_page src h n i)))
       = forward_button_disabled (view h)"
    by (simp add: hockey_show_page_def update_select_view_def Let_def add_item_def remove_item_def
        split: sum.split option.split)
  have s: "fst (hockey_show_page src h n i) = None \<and> select_options src \<noteq> None \<longrightarrow>
        (\<exists>sel. select_view (view (snd (hockey_show_page src h n i))) = Some sel
               \<and> \<not> select_disabled sel)"
    by (auto simp: hockey_show_page_def update_select_view_def Let_def add_item_def remove_item_def
        HockeySelectPlayer_def split: sum.split option.split)
  have b: "\<not> first_item_disabled (view (hockey_BaseMenu src page_start))
   \<and> \<not> last_item_disabled (view (hockey_BaseMenu src page_start))
   \<and> \<not> back_button_disabled (view (hockey_BaseMenu src page_start))
   \<and> \<not> forward_button_disabled (view (hockey_BaseMenu src page_start))"
    by (simp add: hockey_BaseMenu_def Let_def add_item_def split: option.split)
  show ?thesis
    using d h s b by blast
qed

theorem disabled_controls_after_a_transition_witness:
  "first_item_disabled (view (snd (destiny_show_page
       (VaultPages (\<lambda>menu p. Str ''item'') [7 :: int])
       (destiny_BaseMenu (VaultPages (\<lambda>menu p. Str ''item'') [7 :: int]) 0
          :: (unit, string, select_option) menu)
       0 \<lparr>user_id = 1, response_is_done = False, message_ephemeral = False\<rparr>)))
   \<and> select_disabled (the (select_view (view (snd (destiny_show_page
       (VaultPages (\<lambda>menu p. Str ''item'') [7 :: int])
       (destiny_BaseMenu (VaultPages (\<lambda>menu p. Str ''item'') [7 :: int]) 0
          :: (unit, string, select_option) menu)
       0 \<lparr>user_id = 1, response_is_done = False, message_ephemeral = False\<rparr>)))))
   \<and> \<not> forward_button_disabled (view (snd (destiny_show_page
       (VaultPages (\<lambda>menu p. Str ''item'') [7 :: int, 8])
       (destiny_BaseMenu (VaultPages (\<lambda>menu p. Str ''item'') [7 :: int, 8]) 0
          :: (unit, string, select_option) menu)
       1 \<lparr>user_id = 1, response_is_done = False, message_ephemeral = False\<rparr>)))
   \<and> \<not> select_disabled (the (select_view (view (snd (destiny_show_page
       (VaultPages (\<lambda>menu p. Str ''item'') [7 :: int, 8])
       (destiny_BaseMenu (VaultPages (\<lambda>menu p. Str ''item'') [7 :: int, 8]) 0
          :: (unit, string, select_option) menu)
       1 \<lparr>user_id = 1, response_is_done = False, message_ephemeral = False\<rparr>)))))
   \<and> \<not> select_disabled (the (select_view (view (snd (hockey_show_page
       (PlayerPages (\<lambda>menu p. Str ''stats'') (\<lambda>k. ''name'') [3])
       (hockey_BaseMenu (PlayerPages (\<lambda>menu p. Str ''stats'') (\<lambda>k. ''name'') [3]) 0
          :: (unit, string, select_option) menu)
       0 \<lparr>user_id = 1, response_is_done = False, message_ephemeral = False\<rparr>)))))"
proof -
  let ?i = "\<lparr>user_id = 1, response_is_done = False, message_ephemeral = False\<rparr>"
  let ?d1 = "VaultPages (\<lambda>menu p. Str ''item'') [7 :: int]
       :: (int, unit, string, select_option) page_source"
  let ?d2 = "VaultPages (\<lambda>menu p. Str ''item'') [7 :: int, 8]
       :: (int, unit, string, select_option) page_source"
  let ?h = "PlayerPages (\<lambda>menu p. Str ''stats'') (\<lambda>k. ''name'') [3]
       :: (int, unit, string, select_option) page_source"
  let ?r1 = "destiny_show_page ?d1 (destiny_BaseMenu ?d1 0 :: (unit, string, select_option) menu) 0 ?i"
  let ?r2 = "destiny_show_page ?d2 (destiny_BaseMenu ?d2 0 :: (unit, string, select_option) menu) 1 ?i"
  let ?r3 = "hockey_show_page ?h (hockey_BaseMenu ?h 0 :: (unit, string, select_option) menu) 0 ?i"
  have "fst ?r1 = None"
    by (simp add: destiny_show_page_def destiny_BaseMenu_def VaultPages_def Let_def
        ListPageSource_get_page_def destiny_get_kwargs_from_page_def check_disabled_buttons_def
        kwargs_of_value_def get_select_menu_def add_item_def)
  then have c1: "?r1 = (None, snd ?r1)"
    by (metis prod.collapse)
  have "fst ?r2 = None"
    by (simp add: destiny_show_page_def destiny_BaseMenu_def VaultPages_def Let_def
        ListPageSource_get_page_def destiny_get_kwargs_from_page_def check_disabled_buttons_def
        kwargs_of_value_def get_select_menu_def add_item_def)
  then have c2: "?r2 = (None, snd ?r2)"
    by (metis prod.collapse)
  have c3: "fst ?r3 = None"
    by (simp add: hockey_show_page_def PlayerPages_def Let_def ListPageSource_get_page_def
        hockey_get_kwargs_from_page_def kwargs_of_value_def)
  have e: "length (entries ?d1) = 1" "length (entries ?d2) \<noteq> 1"
      "select_options ?d1 \<noteq> None" "select_options ?d2 \<noteq> None" "select_options ?h \<noteq> None"
    by (simp_all add: VaultPages_def PlayerPages_def)
  note t1 = disabled_controls_after_a_transition
      [where src = ?d1 and m' = "snd ?r1" and n = 0 and i = ?i
         and m = "destiny_BaseMenu ?d1 0 :: (unit, string, select_option) menu",
       THEN conjunct1, THEN mp, OF c1, THEN conjunct1, THEN mp, OF e(1)]
  have 1: "first_item_disabled (view (snd ?r1))
      \<and> select_disabled (the (select_view (view (snd ?r1))))"
    using t1 e(3) by auto
  note t2 = disabled_controls_after_a_transition
      [where src = ?d2 and m' = "snd ?r2" and n = 1 and i = ?i
         and m = "destiny_BaseMenu ?d2 0 :: (unit, string, select_option) menu",
       THEN conjunct1, THEN mp, OF c2, THEN conjunct2, THEN mp, OF e(2)]
  have 2: "\<not> forward_button_disabled (view (snd ?r2))
      \<and> \<not> select_disabled (the (select_view (view (snd ?r2))))"
    using t2 e(4) by auto
  note t3 = disabled_controls_after_a_transition
      [where src = ?h and h = "hockey_BaseMenu ?h 0 :: (unit, string, select_option) menu"
         and n = 0 and i = ?i,
       THEN conjunct2, THEN conjunct2, THEN conjunct2, THEN conjunct2, THEN conjunct2,
       THEN conjunct1, THEN mp, OF conjI, OF c3 e(5)]
  have 3: "\<not> select_disabled (the (select_view (view (snd ?r3))))"
    using t3 by auto
  show ?thesis
    using 1 2 3 by simp
qed

text \<open>
  The claim as first stated fails on the hockey menu: on a source with exactly one
  entry, pressing forward (the checked navigation to page 1, which wraps to page 0)
  completes and leaves every control enabled.
\<close>

theorem hockey_single_page_keeps_controls_enabled:
  "fst (hockey_show_checked_page (SimplePages (\<lambda>e k n. e) [Inl ''only page''])
         (hockey_BaseMenu (SimplePages (\<lambda>e k n. e) [Inl ''only page'']) 0
            :: (unit, string, unit) menu)
         1 \<lparr>user_id = 1, response_is_done = False, message_ephemeral = False\<rparr>) = None
   \<and> view (snd (hockey_show_checked_page (SimplePages (\<lambda>e k n. e) [Inl ''only page''])
         (hockey_BaseMenu (SimplePages (\<lambda>e k n. e) [Inl ''only page'']) 0
            :: (unit, string, unit) menu)
         1 \<lparr>user_id = 1, response_is_done = False, message_ephemeral = False\<rparr>))
     = \<lparr>children = [First_item, Back_button, Forward_button, Last_item, Stop_button],
        first_item_disabled = False, last_item_disabled = False,
        back_button_disabled = False, forward_button_disabled = False,
        select_view = None\<rparr>"
  by (simp add: hockey_show_checked_page_def hockey_show_page_def hockey_BaseMenu_def
      SimplePages_def ListPageSource_get_page_def ListPageSource_get_max_pages_def Let_def
      hockey_get_kwargs_from_page_def kwargs_of_value_def update_select_view_def)

section \<open>The page the destiny menu lands on\<close>

text \<open>\<open>list.index\<close> on an element of the list finds its first occurrence.\<close>

lemma list_index_first:
  "n < length xs \<Longrightarrow>
     \<exists>k. list_index xs (xs ! n) = Inr (int k) \<and> k \<le> n \<and> xs ! k = xs ! n
        \<and> (\<forall>j<k. xs ! j \<noteq> xs ! n)"
proof (induction xs arbitrary: n)
  case Nil
  then show ?case by simp
next
  case (Cons y ys)
  show ?case
  proof (cases "y = (y # ys) ! n")
    case True
    then show ?thesis by (intro exI [of _ 0]) simp
  next
    case False
    then obtain n' where n: "n = Suc n'"
      by (cases n) auto
    with Cons.prems have "n' < length ys" by simp
    from Cons.IH [OF this] obtain k where
      k: "list_index ys (ys ! n') = Inr (int k)" "k \<le> n'" "ys ! k = ys ! n'"
         "\<forall>j<k. ys ! j \<noteq> ys ! n'"
      by blast
    have "\<forall>j<Suc k. (y # ys) ! j \<noteq> (y # ys) ! n"
      using k(4) False n by (auto simp: less_Suc_eq_0_disj)
    with k False n show ?thesis
      by (intro exI [of _ "Suc k"]) auto
  qed
qed

lemma list_index_distinct:
  "distinct xs \<Longrightarrow> n < length xs \<Longrightarrow> list_index xs (xs ! n) = Inr (int n)"
proof -
  assume d: "distinct xs" and n: "n < length xs"
  from list_index_first [OF n] obtain k where
    k: "list_index xs (xs ! n) = Inr (int k)" "k \<le> n" "xs ! k = xs ! n"
    by blast
  with d n have "k = n"
    by (simp add: nth_eq_iff_index_eq)
  with k show ?thesis by simp
qed

lemma destiny_show_page_current_page:
  assumes "destiny_show_page src m n i = (None, m')"
  shows "\<exists>page ps. get_page src n = Inr page \<and> pages src = Some ps
           \<and> list_index ps page = Inr (current_page m')"
  using assms
  by (auto simp: destiny_show_page_def destiny_get_kwargs_from_page_def Let_def
      split: sum.splits if_splits option.splits prod.splits)

text \<open>
  C9.  On a list source (\<open>get_page(n)\<close> is the n-th entry of \<open>pages\<close>), a completed
  \<open>show_page(n)\<close> of the destiny menu sets \<open>current_page\<close> to \<open>pages.index(page)\<close>: the
  index of the first element of the page list equal to the fetched page.  It is
  never beyond n, and it is n exactly when no earlier page equals the n-th one; so
  on a list without duplicates it is always n, and navigating to a page that has an
  earlier duplicate lands on the first occurrence, an index below n.
\<close>

theorem destiny_current_page_is_first_index:
  assumes "pages src = Some ps" and "get_page src = ListPageSource_get_page ps"
    and "0 \<le> n" and "n < int (length ps)"
    and "destiny_show_page src m n i = (None, m')"
  shows "list_index ps (ps ! nat n) = Inr (current_page m')
     \<and> 0 \<le> current_page m' \<and> current_page m' \<le> n
     \<and> ps ! nat (current_page m') = ps ! nat n
     \<and> (\<forall>j < nat (current_page m'). ps ! j \<noteq> ps ! nat n)
     \<and> (current_page m' = n \<longleftrightarrow> (\<forall>j < nat n. ps ! j \<noteq> ps ! nat n))
     \<and> ((\<exists>j < nat n. ps ! j = ps ! nat n) \<longrightarrow> current_page m' < n)
     \<and> (distinct ps \<longrightarrow> current_page m' = n)"
proof -
  from assms(3,4) have n: "nat n < length ps" by simp
  from destiny_show_page_current_page [OF assms(5)] assms(1,2,3,4)
  have c: "list_index ps (ps ! nat n) = Inr (current_page m')"
    by (auto simp: ListPageSource_get_page_def)
  from list_index_first [OF n] c obtain k where
    k: "current_page m' = int k" "k \<le> nat n" "ps ! k = ps ! nat n"
       "\<forall>j<k. ps ! j \<noteq> ps ! nat n"
    by auto
  have e: "current_page m' = n \<longleftrightarrow> (\<forall>j < nat n. ps ! j \<noteq> ps ! nat n)"
  proof
    assume "current_page m' = n"
    with k(1) have "k = nat n" by simp
    with k(4) show "\<forall>j < nat n. ps ! j \<noteq> ps ! nat n" by simp
  next
    assume a: "\<forall>j < nat n. ps ! j \<noteq> ps ! nat n"
    have "\<not> k < nat n" using a k(3) by blast
    with k(2) have "k = nat n" by simp
    with k(1) assms(3) show "current_page m' = n" by simp
  qed
  have f: "(\<exists>j < nat n. ps ! j = ps ! nat n) \<longrightarrow> current_page m' < n"
    using e k(1,2) assms(3) by auto
  have g: "distinct ps \<longrightarrow> current_page m' = n"
    using list_index_distinct [OF _ n] c assms(3) by auto
  show ?thesis
    using c k e f g assms(3) by auto
qed

theorem destiny_current_page_is_first_index_witness:
  "current_page (snd (destiny_show_page
      (VaultPages (\<lambda>menu p. Str p) [''sword'', ''helmet'', ''sword''])
      (destiny_BaseMenu (VaultPages (\<lambda>menu p. Str p) [''sword'', ''helmet'', ''sword'']) 0
         :: (unit, string, select_option) menu)
      2 \<lparr>user_id = 1, response_is_done = False, message_ephemeral = False\<rparr>)) = 0
   \<and> current_page (snd (destiny_show_page
      (VaultPages (\<lambda>menu p. Str p) [''sword'', ''helmet'', ''sword''])
      (destiny_BaseMenu (VaultPages (\<lambda>menu p. Str p) [''sword'', ''helmet'', ''sword'']) 0
         :: (unit, string, select_option) menu)
      1 \<lparr>user_id = 1, response_is_done = False, message_ephemeral = False\<rparr>)) = 1"
proof -
  let ?i = "\<lparr>user_id = 1, response_is_done = False, message_ephemeral = False\<rparr>"
  let ?ps = "[''sword'', ''helmet'', ''sword'']"
  let ?d = "VaultPages (\<lambda>menu p. Str p) ?ps :: (string, unit, string, select_option) page_source"
  let ?m = "destiny_BaseMenu ?d 0 :: (unit, string, select_option) menu"
  let ?r2 = "destiny_show_page ?d ?m 2 ?i"
  let ?r1 = "destiny_show_page ?d ?m 1 ?i"
  have p: "pages ?d = Some ?ps" "get_page ?d = ListPageSource_get_page ?ps"
    by (simp_all add: VaultPages_def)
  have "fst ?r2 = None"
    by (simp add: destiny_show_page_def destiny_BaseMenu_def VaultPages_def Let_def
        ListPageSource_get_page_def destiny_get_kwargs_from_page_def check_disabled_buttons_def
        kwargs_of_value_def get_select_menu_def add_item_def)
  then have c2: "?r2 = (None, snd ?r2)"
    by (metis prod.collapse)
  have "fst ?r1 = None"
    by (simp add: destiny_show_page_def destiny_BaseMenu_def VaultPages_def Let_def
        ListPageSource_get_page_def destiny_get_kwargs_from_page_def check_disabled_buttons_def
        kwargs_of_value_def get_select_menu_def add_item_def)
  then have c1: "?r1 = (None, snd ?r1)"
    by (metis prod.collapse)
  have b2: "(0::int) \<le> 2" "(2::int) < int (length ?ps)" and b1: "(0::int) \<le> 1" "(1::int) < int (length ?ps)"
    by simp_all
  note t2 = destiny_current_page_is_first_index [OF p b2 c2, THEN conjunct1]
  note t1 = destiny_current_page_is_first_index [OF p b1 c1, THEN conjunct1]
  have 2: "current_page (snd ?r2) = 0"
    using t2 by simp
  have 1: "current_page (snd ?r1) = 1"
    using t1 by simp
  show ?thesis
    using 1 2 by simp
qed

section \<open>Wrap-around of the checked navigation\<close>

lemma destiny_checked_list_source:
  assumes "get_page src = ListPageSource_get_page ps"
    and "get_max_pages src = ListPageSource_get_max_pages ps" and "ps \<noteq> []"
  shows "destiny_show_checked_page src m (int (length ps)) i = destiny_show_page src m 0 i"
    and "destiny_show_checked_page src m (- 1) i = destiny_show_page src m (int (length ps) - 1) i"
proof -
  from assms(3) have l: "0 < length ps" by simp
  have a: "get_page src 0 \<noteq> Inl IndexError"
    using assms(1) l by (simp add: ListPageSource_get_page_def)
  have b: "get_page src (int (length ps) - 1) \<noteq> Inl IndexError"
    using assms(1) l by (simp add: ListPageSource_get_page_def)
  show "destiny_show_checked_page src m (int (length ps)) i = destiny_show_page src m 0 i"
    using assms(2) destiny_show_page_no_IndexError [OF a, of m i]
    by (simp add: destiny_show_checked_page_def ListPageSource_get_max_pages_def
        swallow_IndexError)
  show "destiny_show_checked_page src m (- 1) i = destiny_show_page src m (int (length ps) - 1) i"
    using assms(2) l destiny_show_page_no_IndexError [OF b, of m i]
    by (simp add: destiny_show_checked_page_def ListPageSource_get_max_pages_def
        swallow_IndexError)
qed

text \<open>
  C1, as amended.  With a known maximum M > 0 and a source that serves the page, the
  checked navigation of the two \<open>BaseMenu\<close> classes turns a request for page M into
  \<open>show_page(0)\<close> and a request for page -1 into \<open>show_page(M - 1)\<close>.  In the hockey
  \<open>BaseMenu\<close> \<open>current_page\<close> then ends as 0 and as M - 1, and on an interaction not
  yet responded to the call ends with one edit that carries that page as rendered.  A
  completed destiny call ends with one edit that carries that page as rendered and
  with \<open>current_page\<close> the index of that page in \<open>pages\<close>: on a list source that is 0
  after a request for page M, and M - 1 after a request for page -1 when the page list
  has no duplicates.  \<open>GamesMenu.show_checked_page\<close> does not wrap: it hands the
  requested number to \<open>get_page\<close> unchanged, and \<open>current_page\<close> ends as the requested
  number when the source serves it and keeps its value when the source raises.
\<close>

theorem wrap_of_the_checked_navigation:
  "(get_max_pages src = Some M \<and> 0 < M \<and> get_page src 0 = Inr p0 \<longrightarrow>
      current_page (snd (hockey_show_checked_page src h M i)) = 0)
   \<and> (get_max_pages src = Some M \<and> 0 < M \<and> get_page src (M - 1) = Inr p1 \<longrightarrow>
      current_page (snd (hockey_show_checked_page src h (- 1) i)) = M - 1)
   \<and> (pages src = Some ps \<and> get_page src = ListPageSource_get_page ps
        \<and> get_max_pages src = ListPageSource_get_max_pages ps \<and> ps \<noteq> []
        \<and> fst (destiny_show_checked_page src m (int (length ps)) i) = None \<longrightarrow>
      current_page (snd (destiny_show_checked_page src m (int (length ps)) i)) = 0)
   \<and> (pages src = Some ps \<and> get_page src = ListPageSource_get_page ps
        \<and> get_max_pages src = ListPageSource_get_max_pages ps \<and> ps \<noteq> [] \<and> distinct ps
        \<and> fst (destiny_show_checked_page src m (- 1) i) = None \<longrightarrow>
      current_page (snd (destiny_show_checked_page src m (- 1) i)) = int (length ps) - 1)
   \<and> current_page (snd (GamesMenu_show_checked_page ops g n i)) =
       (case fst (sched_get_page ops (source g) n False False None) of
          Inl e \<Rightarrow> current_page g
        | Inr page \<Rightarrow> n)
   \<and> (get_max_pages src = Some M \<and> 0 < M \<and> get_page src 0 = Inr p0 \<longrightarrow>
      hockey_show_checked_page src h M i = hockey_show_page src h 0 i
    \<and> destiny_show_checked_page src m M i = destiny_show_page src m 0 i)
   \<and> (get_max_pages src = Some M \<and> 0 < M \<and> get_page src (M - 1) = Inr p1 \<longrightarrow>
      hockey_show_checked_page src h (- 1) i = hockey_show_page src h (M - 1) i
    \<and> destiny_show_checked_page src m (- 1) i = destiny_show_page src m (M - 1) i)
   \<and> (get_max_pages src = Some M \<and> 0 < M \<and> get_page src 0 = Inr p0 \<and> \<not> response_is_done i
        \<and> kwargs_of_value (format_page src (h\<lparr>current_page := 0\<rparr>) p0) = Some kw \<longrightarrow>
      hockey_show_checked_page src h M i =
        (None,
          h\<lparr>current_page := 0, view := update_select_view src (view h) 0,
            sink := sink h @ [Response_edit_message kw (update_select_view src (view h) 0)]\<rparr>))
   \<and> (get_max_pages src = Some M \<and> 0 < M \<and> get_page src (M - 1) = Inr p1 \<and> \<not> response_is_done i
        \<and> kwargs_of_value (format_page src (h\<lparr>current_page := M - 1\<rparr>) p1) = Some kw \<longrightarrow>
      hockey_show_checked_page src h (- 1) i =
        (None,
          h\<lparr>current_page := M - 1, view := update_select_view src (view h) (M - 1),
            sink := sink h @ [Response_edit_message kw (update_select_view src (view h) (M - 1))]\<rparr>))
   \<and> (get_max_pages src = Some M \<and> 0 < M \<and> get_page src 0 = Inr p0
        \<and> destiny_show_checked_page src m M i = (None, m') \<longrightarrow>
       (\<exists>ps. pages src = Some ps \<and> list_index ps p0 = Inr (current_page m'))
     \<and> (\<exists>mid kw. current_page mid = current_page m' \<and> author mid = author m
            \<and> kwargs_of_value (format_page src mid p0) = Some kw
            \<and> sink m' = sink m @ [Response_edit_message kw (view m')]))
   \<and> (get_max_pages src = Some M \<and> 0 < M \<and> get_page src (M - 1) = Inr p1
        \<and> destiny_show_checked_page src m (- 1) i = (None, m') \<longrightarrow>
       (\<exists>ps. pages src = Some ps \<and> list_index ps p1 = Inr (current_page m'))
     \<and> (\<exists>mid kw. current_page mid = current_page m' \<and> author mid = author m
            \<and> kwargs_of_value (format_page src mid p1) = Some kw
            \<and> sink m' = sink m @ [Response_edit_message kw (view m')]))"
proof (intro conjI impI)
  assume a: "get_max_pages src = Some M \<and> 0 < M \<and> get_page src 0 = Inr p0"
  then have "fst (hockey_show_page src h 0 i) \<noteq> Some IndexError"
    by (intro hockey_show_page_no_IndexError) simp
  with a show "current_page (snd (hockey_show_checked_page src h M i)) = 0"
    by (simp add: hockey_show_checked_page_def swallow_IndexError
        hockey_show_page_sets_current_page)
next
  assume a: "get_max_pages src = Some M \<and> 0 < M \<and> get_page src (M - 1) = Inr p1"
  then have "fst (hockey_show_page src h (M - 1) i) \<noteq> Some IndexError"
    by (intro hockey_show_page_no_IndexError) simp
  with a show "current_page (snd (hockey_show_checked_page src h (- 1) i)) = M - 1"
    by (simp add: hockey_show_checked_page_def swallow_IndexError
        hockey_show_page_sets_current_page)
next
  assume a: "pages src = Some ps \<and> get_page src = ListPageSource_get_page ps
        \<and> get_max_pages src = ListPageSource_get_max_pages ps \<and> ps \<noteq> []
        \<and> fst (destiny_show_checked_page src m (int (length ps)) i) = None"
  then have e: "destiny_show_checked_page src m (int (length ps)) i = destiny_show_page src m 0 i"
    by (intro destiny_checked_list_source) simp_all
  with a have "destiny_show_page src m 0 i = (None, snd (destiny_show_page src m 0 i))"
    by (metis prod.collapse)
  from destiny_show_page_current_page [OF this] a
  have "list_index ps (ps ! 0) = Inr (current_page (snd (destiny_show_page src m 0 i)))"
    by (auto simp: ListPageSource_get_page_def)
  moreover from a have "list_index ps (ps ! 0) = Inr 0"
    by (cases ps) simp_all
  ultimately show "current_page (snd (destiny_show_checked_page src m (int (length ps)) i)) = 0"
    using e by simp
next
  assume a: "pages src = Some ps \<and> get_page src = ListPageSource_get_page ps
        \<and> get_max_pages src = ListPageSource_get_max_pages ps \<and> ps \<noteq> [] \<and> distinct ps
        \<and> fst (destiny_show_checked_page src m (- 1) i) = None"
  let ?l = "int (length ps) - 1"
  from a have l: "0 < length ps" by simp
  from a have e: "destiny_show_checked_page src m (- 1) i = destiny_show_page src m ?l i"
    by (intro destiny_checked_list_source) simp_all
  with a have "destiny_show_page src m ?l i = (None, snd (destiny_show_page src m ?l i))"
    by (metis prod.collapse)
  from destiny_show_page_current_page [OF this] a l
  have "list_index ps (ps ! nat ?l) = Inr (current_page (snd (destiny_show_page src m ?l i)))"
    by (auto simp: ListPageSource_get_page_def)
  moreover from l have "nat ?l < length ps" by linarith
  with a have "list_index ps (ps ! nat ?l) = Inr (int (nat ?l))"
    by (intro list_index_distinct) simp_all
  moreover note e l
  ultimately show "current_page (snd (destiny_show_checked_page src m (- 1) i)) = ?l"
    by simp
next
  show "current_page (snd (GamesMenu_show_checked_page ops g n i)) =
       (case fst (sched_get_page ops (source g) n False False None) of
          Inl e \<Rightarrow> current_page g
        | Inr page \<Rightarrow> n)"
    by (simp add: GamesMenu_show_checked_page_def GamesMenu_show_page_def Let_def
        split: prod.split sum.split option.split error.split)
next
  assume a: "get_max_pages src = Some M \<and> 0 < M \<and> get_page src 0 = Inr p0"
  then have s: "get_max_pages src = Some M" "0 < M" and g: "get_page src 0 \<noteq> Inl IndexError"
    by auto
  show "hockey_show_checked_page src h M i = hockey_show_page src h 0 i"
    by (rule checked_page_wraps(1) [OF s g])
  show "destiny_show_checked_page src m M i = destiny_show_page src m 0 i"
    by (rule checked_page_wraps(3) [OF s g])
next
  assume a: "get_max_pages src = Some M \<and> 0 < M \<and> get_page src (M - 1) = Inr p1"
  then have s: "get_max_pages src = Some M" "0 < M"
    and g: "get_page src (M - 1) \<noteq> Inl IndexError"
    by auto
  show "hockey_show_checked_page src h (- 1) i = hockey_show_page src h (M - 1) i"
    by (rule checked_page_wraps(2) [OF s g])
  show "destiny_show_checked_page src m (- 1) i = destiny_show_page src m (M - 1) i"
    by (rule checked_page_wraps(4) [OF s g])
next
  assume a: "get_max_pages src = Some M \<and> 0 < M \<and> get_page src 0 = Inr p0 \<and> \<not> response_is_done i
        \<and> kwargs_of_value (format_page src (h\<lparr>current_page := 0\<rparr>) p0) = Some kw"
  then have s: "get_max_pages src = Some M" "0 < M" and g: "get_page src 0 \<noteq> Inl IndexError"
    and p: "get_page src 0 = Inr p0" and d: "\<not> response_is_done i"
    and k: "kwargs_of_value (format_page src (h\<lparr>current_page := 0\<rparr>) p0) = Some kw"
    by auto
  show "hockey_show_checked_page src h M i =
        (None,
          h\<lparr>current_page := 0, view := update_select_view src (view h) 0,
            sink := sink h @ [Response_edit_message kw (update_select_view src (view h) 0)]\<rparr>)"
    using checked_page_wraps(1) [OF s g, of h i] hockey_show_page_result [OF p d k]
    by simp
next
  assume a: "get_max_pages src = Some M \<and> 0 < M \<and> get_page src (M - 1) = Inr p1 \<and> \<not> response_is_done i
        \<and> kwargs_of_value (format_page src (h\<lparr>current_page := M - 1\<rparr>) p1) = Some kw"
  then have s: "get_max_pages src = Some M" "0 < M"
    and g: "get_page src (M - 1) \<noteq> Inl IndexError"
    and p: "get_page src (M - 1) = Inr p1" and d: "\<not> response_is_done i"
    and k: "kwargs_of_value (format_page src (h\<lparr>current_page := M - 1\<rparr>) p1) = Some kw"
    by auto
  show "hockey_show_checked_page src h (- 1) i =
        (None,
          h\<lparr>current_page := M - 1, view := update_select_view src (view h) (M - 1),
            sink := sink h @ [Response_edit_message kw (update_select_view src (view h) (M - 1))]\<rparr>)"
    using checked_page_wraps(2) [OF s g, of h i] hockey_show_page_result [OF p d k]
    by simp
next
  assume a: "get_max_pages src = Some M \<and> 0 < M \<and> get_page src 0 = Inr p0
        \<and> destiny_show_checked_page src m M i = (None, m')"
  then have s: "get_max_pages src = Some M" "0 < M" and g: "get_page src 0 \<noteq> Inl IndexError"
    and p: "get_page src 0 = Inr p0" and c: "destiny_show_checked_page src m M i = (None, m')"
    by auto
  from c have "destiny_show_page src m 0 i = (None, m')"
    by (simp add: checked_page_wraps(3) [OF s g])
  from destiny_show_page_lands [OF this p]
  show "(\<exists>ps. pages src = Some ps \<and> list_index ps p0 = Inr (current_page m'))"
    and "(\<exists>mid kw. current_page mid = current_page m' \<and> author mid = author m
            \<and> kwargs_of_value (format_page src mid p0) = Some kw
            \<and> sink m' = sink m @ [Response_edit_message kw (view m')])"
    by blast+
next
  assume a: "get_max_pages src = Some M \<and> 0 < M \<and> get_page src (M - 1) = Inr p1
        \<and> destiny_show_checked_page src m (- 1) i = (None, m')"
  then have s: "get_max_pages src = Some M" "0 < M"
    and g: "get_page src (M - 1) \<noteq> Inl IndexError"
    and p: "get_page src (M - 1) = Inr p1"
    and c: "destiny_show_checked_page src m (- 1) i = (None, m')"
    by auto
  from c have "destiny_show_page src m (M - 1) i = (None, m')"
    by (simp add: checked_page_wraps(4) [OF s g])
  from destiny_show_page_lands [OF this p]
  show "(\<exists>ps. pages src = Some ps \<and> list_index ps p1 = Inr (current_page m'))"
    and "(\<exists>mid kw. current_page mid = current_page m' \<and> author mid = author m
            \<and> kwargs_of_value (format_page src mid p1) = Some kw
            \<and> sink m' = sink m @ [Response_edit_message kw (view m')])"
    by blast+
qed

theorem wrap_of_the_checked_navigation_witness:
  "(let hs = (SimplePages (\<lambda>e k n. e) [Inl ''a'', Inl ''b'', Inl ''c'']
              :: (string + string, unit, string, unit) page_source);
        ds = (VaultPages (\<lambda>menu p. Str p) [''a'', ''b'', ''c'']
              :: (string, unit, string, select_option) page_source);
        i = \<lparr>user_id = 1, response_is_done = False, message_ephemeral = False\<rparr>;
        h2 = hockey_BaseMenu hs 2;
        h0 = hockey_BaseMenu hs 0;
        r3 = destiny_show_checked_page ds (destiny_BaseMenu ds 2) 3 i;
        r4 = destiny_show_checked_page ds (destiny_BaseMenu ds 0) (- 1) i
    in hockey_show_checked_page hs h2 3 i =
         (None, h2\<lparr>current_page := 0,
                    sink := [Response_edit_message (Kwargs (Some ''a'') None) (view h2)]\<rparr>)
     \<and> hockey_show_checked_page hs h0 (- 1) i =
         (None, h0\<lparr>current_page := 2,
                    sink := [Response_edit_message (Kwargs (Some ''c'') None) (view h0)]\<rparr>)
     \<and> fst r3 = None \<and> current_page (snd r3) = 0
     \<and> sink (snd r3) = [Response_edit_message (Kwargs (Some ''a'') None) (view (snd r3))]
     \<and> fst r4 = None \<and> current_page (snd r4) = 2
     \<and> sink (snd r4) = [Response_edit_message (Kwargs (Some ''c'') None) (view (snd r4))])"
proof -
  let ?hs = "SimplePages (\<lambda>e k n. e) [Inl ''a'', Inl ''b'', Inl ''c'']
              :: (string + string, unit, string, unit) page_source"
  let ?ps = "[''a'', ''b'', ''c'']"
  let ?ds = "VaultPages (\<lambda>menu p. Str p) ?ps
              :: (string, unit, string, select_option) page_source"
  let ?i = "\<lparr>user_id = 1, response_is_done = False, message_ephemeral = False\<rparr>"
  let ?h2 = "hockey_BaseMenu ?hs 2"
  let ?h0 = "hockey_BaseMenu ?hs 0"
  let ?d2 = "destiny_BaseMenu ?ds 2"
  let ?d0 = "destiny_BaseMenu ?ds 0"
  let ?r3 = "destiny_show_checked_page ?ds ?d2 3 ?i"
  let ?r4 = "destiny_show_checked_page ?ds ?d0 (- 1) ?i"
  have hv: "sink ?h2 = []" "sink ?h0 = []"
      "update_select_view ?hs (view ?h2) 0 = view ?h2"
      "update_select_view ?hs (view ?h0) 2 = view ?h0"
    by (simp_all add: hockey_BaseMenu_def SimplePages_def update_select_view_def Let_def)
  have dv: "sink ?d2 = []" "sink ?d0 = []"
    by (simp_all add: destiny_BaseMenu_def Let_def)
  have a8: "get_max_pages ?hs = Some 3 \<and> (0::int) < 3 \<and> get_page ?hs 0 = Inr (Inl ''a'')
        \<and> \<not> response_is_done ?i
        \<and> kwargs_of_value (format_page ?hs (?h2\<lparr>current_page := 0\<rparr>) (Inl ''a''))
            = Some (Kwargs (Some ''a'') None)"
    by (simp add: SimplePages_def ListPageSource_get_page_def ListPageSource_get_max_pages_def
        kwargs_of_value_def)
  have a9: "get_max_pages ?hs = Some 3 \<and> (0::int) < 3 \<and> get_page ?hs (3 - 1) = Inr (Inl ''c'')
        \<and> \<not> response_is_done ?i
        \<and> kwargs_of_value (format_page ?hs (?h0\<lparr>current_page := 3 - 1\<rparr>) (Inl ''c''))
            = Some (Kwargs (Some ''c'') None)"
    by (simp add: SimplePages_def ListPageSource_get_page_def ListPageSource_get_max_pages_def
        kwargs_of_value_def)
  have f3: "fst ?r3 = None"
    by (simp add: destiny_show_checked_page_def destiny_show_page_def destiny_BaseMenu_def
        VaultPages_def Let_def ListPageSource_get_page_def ListPageSource_get_max_pages_def
        destiny_get_kwargs_from_page_def check_disabled_buttons_def
        kwargs_of_value_def get_select_menu_def add_item_def)
  have f4: "fst ?r4 = None"
    by (simp add: destiny_show_checked_page_def destiny_show_page_def destiny_BaseMenu_def
        VaultPages_def Let_def ListPageSource_get_page_def ListPageSource_get_max_pages_def
        destiny_get_kwargs_from_page_def check_disabled_buttons_def
        kwargs_of_value_def get_select_menu_def add_item_def)
  have a10: "get_max_pages ?ds = Some 3 \<and> (0::int) < 3 \<and> get_page ?ds 0 = Inr ''a''
        \<and> ?r3 = (None, snd ?r3)"
    using f3
    by (simp add: VaultPages_def ListPageSource_get_page_def ListPageSource_get_max_pages_def
        prod_eq_iff)
  have a11: "get_max_pages ?ds = Some 3 \<and> (0::int) < 3 \<and> get_page ?ds (3 - 1) = Inr ''c''
        \<and> ?r4 = (None, snd ?r4)"
    using f4
    by (simp add: VaultPages_def ListPageSource_get_page_def ListPageSource_get_max_pages_def
        prod_eq_iff)
  have p: "pages ?ds = Some ?ps" "format_page ?ds = (\<lambda>menu p. Str p)"
    by (simp_all add: VaultPages_def)
  note w8 = wrap_of_the_checked_navigation
    [where src = ?hs and M = 3 and ?p0.0 = "Inl ''a''" and h = ?h2 and i = ?i
       and kw = "Kwargs (Some ''a'') None",
     THEN conjunct2, THEN conjunct2, THEN conjunct2, THEN conjunct2, THEN conjunct2, THEN conjunct2, THEN conjunct2, THEN conjunct1, THEN mp, OF a8]
  note w9 = wrap_of_the_checked_navigation
    [where src = ?hs and M = 3 and ?p1.0 = "Inl ''c''" and h = ?h0 and i = ?i
       and kw = "Kwargs (Some ''c'') None",
     THEN conjunct2, THEN conjunct2, THEN conjunct2, THEN conjunct2, THEN conjunct2, THEN conjunct2, THEN conjunct2, THEN conjunct2, THEN conjunct1, THEN mp, OF a9]
  note w10 = wrap_of_the_checked_navigation
    [where src = ?ds and M = 3 and ?p0.0 = "''a''" and m = ?d2 and i = ?i and m' = "snd ?r3",
     THEN conjunct2, THEN conjunct2, THEN conjunct2, THEN conjunct2, THEN conjunct2, THEN conjunct2, THEN conjunct2, THEN conjunct2, THEN conjunct2, THEN conjunct1, THEN mp, OF a10]
  note w11 = wrap_of_the_checked_navigation
    [where src = ?ds and M = 3 and ?p1.0 = "''c''" and m = ?d0 and i = ?i and m' = "snd ?r4",
     THEN conjunct2, THEN conjunct2, THEN conjunct2, THEN conjunct2, THEN conjunct2, THEN conjunct2, THEN conjunct2, THEN conjunct2, THEN conjunct2, THEN conjunct2, THEN mp, OF a11]
  have 1: "hockey_show_checked_page ?hs ?h2 3 ?i =
         (None, ?h2\<lparr>current_page := 0,
                    sink := [Response_edit_message (Kwargs (Some ''a'') None) (view ?h2)]\<rparr>)"
    using w8 by (simp add: hv)
  have 2: "hockey_show_checked_page ?hs ?h0 (- 1) ?i =
         (None, ?h0\<lparr>current_page := 2,
                    sink := [Response_edit_message (Kwargs (Some ''c'') None) (view ?h0)]\<rparr>)"
    using w9 by (simp add: hv)
  have 3: "current_page (snd ?r3) = 0"
    using w10 [THEN conjunct1] by (auto simp: p)
  have 4: "sink (snd ?r3) = [Response_edit_message (Kwargs (Some ''a'') None) (view (snd ?r3))]"
    using w10 [THEN conjunct2] by (auto simp: p dv kwargs_of_value_def)
  have 5: "current_page (snd ?r4) = 2"
    using w11 [THEN conjunct1] by (auto simp: p)
  have 6: "sink (snd ?r4) = [Response_edit_message (Kwargs (Some ''c'') None) (view (snd ?r4))]"
    using w11 [THEN conjunct2] by (auto simp: p dv kwargs_of_value_def)
  show ?thesis
    unfolding Let_def using 1 2 f3 3 4 f4 5 6 by simp
qed

text \<open>
  The claim as first stated fails on \<open>GamesMenu\<close>: on a source of three games that
  reports the maximum 3 and raises IndexError outside [0, 3), a session on page 2 that
  is asked for page 3 stays on page 2, and a new session asked for page -1 stays on
  page 0.
\<close>

theorem GamesMenu_checked_page_does_not_wrap:
  "(let ops = \<lparr>sched_get_page =
                  (\<lambda>x n skip_next skip_prev game_id.
                     (ListPageSource_get_page [''g0'', ''g1'', ''g2''] n, x)),
                sched_get_max_pages = (\<lambda>x. ListPageSource_get_max_pages [''g0'', ''g1'', ''g2'']),
                sched_format_page = (\<lambda>x menu p. Str p), sched_select_options = (\<lambda>x. None),
                team = (\<lambda>x. []), last_searched = (\<lambda>x. ''today''), humanize_list = concat\<rparr>;
        i = \<lparr>user_id = 1, response_is_done = False, message_ephemeral = False\<rparr>;
        g0 = (GamesMenu True () :: (unit, string, unit, unit) games_menu);
        r1 = GamesMenu_show_checked_page ops g0 2 i;
        r2 = GamesMenu_show_checked_page ops (snd r1) 3 i;
        r3 = GamesMenu_show_checked_page ops g0 (- 1) i
    in sched_get_max_pages ops () = Some 3
     \<and> current_page (snd r1) = 2
     \<and> fst r2 = None \<and> current_page (snd r2) = 2
     \<and> fst r3 = None \<and> current_page (snd r3) = 0)"
  unfolding Let_def
  by (simp add: GamesMenu_show_checked_page_def GamesMenu_show_page_def GamesMenu_def Let_def
      ListPageSource_get_page_def ListPageSource_get_max_pages_def kwargs_of_value_def)

section \<open>The select after a transition\<close>

text \<open>
  C8.  The claim is that after every completed \<open>show_page\<close> the select holds the
  window computed from the new \<open>current_page\<close>, also when the page moves back below
  12.  The destiny menu does not do this.  \<open>show_page\<close> rebuilds the select only when
  the requested page is 12 or more, and \<open>_get_select_menu\<close> runs before
  \<open>current_page\<close> is assigned, so it reads the page the session is leaving.  On a source
  of 30 pages, a new session asked for page 20 completes on page 20 with the select
  still holding options 0 to 24, where the window of page 20 is options 5 to 29; and
  after the further requests for page 13 and page 0 the session is on page 0 with the
  select holding options 5 to 29, where the window of page 0 is options 0 to 24.
\<close>

theorem destiny_select_lags_behind_the_page:
  "(let src = (VaultPages (\<lambda>menu p. Str ''item'')
                 [0, 1, 2, 3, 4, 5, 6, 7, 8, 9, 10, 11, 12, 13, 14, 15, 16, 17, 18, 19,
                  20, 21, 22, 23, 24, 25, 26, 27, 28, 29]
               :: (int, unit, string, select_option) page_source);
        i = \<lparr>user_id = 1, response_is_done = False, message_ephemeral = False\<rparr>;
        m0 = destiny_BaseMenu src 0;
        r1 = destiny_show_page src m0 20 i;
        r2 = destiny_show_page src (snd r1) 13 i;
        r3 = destiny_show_page src (snd r2) 0 i
    in fst r1 = None
     \<and> current_page (snd r1) = 20
     \<and> map option_value (options (the (select_view (view (snd r1)))))
         = [0, 1, 2, 3, 4, 5, 6, 7, 8, 9, 10, 11, 12, 13, 14, 15, 16, 17, 18, 19,
            20, 21, 22, 23, 24]
     \<and> map option_value (options (the (get_select_menu src 20)))
         = [5, 6, 7, 8, 9, 10, 11, 12, 13, 14, 15, 16, 17, 18, 19,
            20, 21, 22, 23, 24, 25, 26, 27, 28, 29]
     \<and> fst r3 = None
     \<and> current_page (snd r3) = 0
     \<and> map option_value (options (the (select_view (view (snd r3)))))
         = [5, 6, 7, 8, 9, 10, 11, 12, 13, 14, 15, 16, 17, 18, 19,
            20, 21, 22, 23, 24, 25, 26, 27, 28, 29]
     \<and> map option_value (options (the (get_select_menu src 0)))
         = [0, 1, 2, 3, 4, 5, 6, 7, 8, 9, 10, 11, 12, 13, 14, 15, 16, 17, 18, 19,
            20, 21, 22, 23, 24])"
  unfolding Let_def
  by (simp add: destiny_show_page_def destiny_BaseMenu_def VaultPages_def Let_def
      ListPageSource_get_page_def destiny_get_kwargs_from_page_def check_disabled_buttons_def
      kwargs_of_value_def get_select_menu_def add_item_def remove_item_def DestinySelect_def
      py_slice_def slice_bound_def)

end
